theory Spec2Isabelle
  imports Complex_Main "HOL-Library.Word"
begin

section \<open>Data model of \<open>src/market/market.py\<close>\<close>

text \<open>
  A \<open>PublicKey\<close> is compared by its bytes; it is kept here as its base58 text, which
  names those bytes. An \<open>Account\<close> is a key pair of which the module only reads the
  public key.
\<close>

datatype public_key = PublicKey string

datatype account = Account (account_public_key: public_key)

definition WRAPPED_SOL_MINT :: public_key where
  "WRAPPED_SOL_MINT = PublicKey ''So11111111111111111111111111111111111111112''"

datatype side = Buy | Sell

datatype order_type = Limit | IOC | PostOnly

text \<open>
  Every exception the module raises itself, and the ones Python raises inside it
  (a missing dictionary key, a division by zero, a quotient too large for a float).
  \<open>TransportError\<close> stands for whatever a collaborator outside this module raises.
\<close>

datatype error =
    NotImplementedError string
  | ValueError string
  | Exception string
  | KeyError string
  | ZeroDivisionError string
  | OverflowError string
  | TransportError string

text \<open>
  The values found in a JSON-RPC response dictionary: \<open>None\<close>, an integer or a string.
  \<open>truthy\<close> is Python's truth test (\<open>not v\<close> is its negation) and \<open>py_str\<close> is \<open>str(v)\<close>.
\<close>

datatype rpc_value = RNone | RInt int | RStr string

type_synonym rpc_response = "string \<rightharpoonup> rpc_value"

fun string_of_nat :: "nat \<Rightarrow> string" where
  "string_of_nat n =
     (if n < 10 then [char_of (48 + n)]
      else string_of_nat (n div 10) @ [char_of (48 + n mod 10)])"

definition string_of_int :: "int \<Rightarrow> string" where
  "string_of_int i = (if i < 0 then CHR ''-'' # string_of_nat (nat (- i)) else string_of_nat (nat i))"

fun truthy :: "rpc_value \<Rightarrow> bool" where
  "truthy RNone = False"
| "truthy (RInt i) = (i \<noteq> 0)"
| "truthy (RStr s) = (s \<noteq> [])"

fun py_str :: "rpc_value \<Rightarrow> string" where
  "py_str RNone = ''None''"
| "py_str (RInt i) = string_of_int i"
| "py_str (RStr s) = s"

text \<open>\<open>res.get("result")\<close>: a missing key reads as \<open>None\<close>.\<close>

definition dict_get :: "rpc_response \<Rightarrow> string \<Rightarrow> rpc_value" where
  "dict_get d k = (case d k of None \<Rightarrow> RNone | Some v \<Rightarrow> v)"

text \<open>\<open>resp["result"]\<close>: a missing key raises \<open>KeyError\<close>.\<close>

definition dict_subscript :: "rpc_response \<Rightarrow> string \<Rightarrow> error + rpc_value" where
  "dict_subscript d k = (case d k of None \<Rightarrow> Inl (KeyError k) | Some v \<Rightarrow> Inr v)"

subsection \<open>Python's true division of integers\<close>

text \<open>
  \<open>a / b\<close> on two Python integers is the IEEE double nearest to the exact quotient
  (ties to the even significand); it raises \<open>ZeroDivisionError\<close> when \<open>b\<close> is zero and
  \<open>OverflowError\<close> when the rounded quotient does not fit a double. A double is kept as
  the rational number it denotes (so \<open>-0.0\<close> and \<open>0.0\<close> are one value).
\<close>

type_synonym py_float = rat

fun bit_length :: "nat \<Rightarrow> nat" where
  "bit_length n = (if n = 0 then 0 else Suc (bit_length (n div 2)))"

definition round_half_even_div :: "int \<Rightarrow> int \<Rightarrow> int" where
  "round_half_even_div x y =
     (let q = x div y; r = x mod y
      in if 2 * r < y \<or> (2 * r = y \<and> even q) then q else q + 1)"

text \<open>The integer \<open>e\<close> with \<open>2^e \<le> x / y < 2^(e+1)\<close>, for positive \<open>x\<close> and \<open>y\<close>.\<close>

definition float_exponent :: "int \<Rightarrow> int \<Rightarrow> int" where
  "float_exponent x y =
     (let d = int (bit_length (nat x)) - int (bit_length (nat y))
      in if (if 0 \<le> d then y * 2 ^ nat d \<le> x else y \<le> x * 2 ^ nat (- d)) then d else d - 1)"

definition py_truediv :: "int \<Rightarrow> int \<Rightarrow> error + py_float" where
  "py_truediv a b =
     (if b = 0 then Inl (ZeroDivisionError ''division by zero'')
      else if a = 0 then Inr 0
      else
        let x = \<bar>a\<bar>; y = \<bar>b\<bar>;
            u = max (float_exponent x y - 52) (- 1074);
            m = (if 0 \<le> u then round_half_even_div x (y * 2 ^ nat u)
                 else round_half_even_div (x * 2 ^ nat (- u)) y);
            r = (if 0 \<le> u then of_int m * 2 ^ nat u else of_int m / 2 ^ nat (- u))
        in if 2 ^ 1024 \<le> r
           then Inl (OverflowError ''integer division result too large for a float'')
           else Inr (if (a < 0) \<noteq> (b < 0) then - r else r))"

subsection \<open>Events and fills\<close>

record event_flags =
  fill :: bool
  out :: bool
  bid :: bool
  maker :: bool

record event =
  event_flags :: event_flags
  native_quantity_released :: int
  native_quantity_paid :: int
  native_fee_or_rebate :: int
  order_id :: "8 word list"

record filled_order =
  fo_order_id :: int
  fo_side :: side
  fo_price :: py_float
  fo_size :: py_float
  fo_fee_cost :: int

text \<open>\<open>int.from_bytes(bs, "little")\<close>.\<close>

fun int_from_bytes_little :: "8 word list \<Rightarrow> int" where
  "int_from_bytes_little [] = 0"
| "int_from_bytes_little (b # bs) = uint b + 256 * int_from_bytes_little bs"

subsection \<open>Market state and the market object\<close>

text \<open>
  \<open>MarketState\<close> lives in another module; the record holds what its accessor methods
  return. The two lot conversions and the two multipliers are parameters.
\<close>

record market_state =
  public_key :: public_key
  program_id :: public_key
  request_queue :: public_key
  event_queue :: public_key
  bids :: public_key
  asks :: public_key
  base_vault :: public_key
  quote_vault :: public_key
  base_mint :: public_key
  quote_mint :: public_key
  base_spl_token_multiplier :: int
  quote_spl_token_multiplier :: int
  base_size_number_to_lots :: "int \<Rightarrow> int"
  price_number_to_lots :: "int \<Rightarrow> int"

record market =
  skip_preflight :: bool
  confirmations :: int
  state :: market_state

section \<open>Fill parsing\<close>

text \<open>
  Lines 106--119 of \<open>parse_fill_event\<close>: the side and the local \<open>price_before_fees\<close>.
\<close>

definition fill_side :: "event \<Rightarrow> side" where
  "fill_side ev = (if bid (event_flags ev) then Buy else Sell)"

definition price_before_fees :: "event \<Rightarrow> int" where
  "price_before_fees ev =
     (if bid (event_flags ev) then
        (if maker (event_flags ev)
         then native_quantity_released ev + native_fee_or_rebate ev
         else native_quantity_released ev - native_fee_or_rebate ev)
      else
        (if maker (event_flags ev)
         then native_quantity_released ev - native_fee_or_rebate ev
         else native_quantity_released ev + native_fee_or_rebate ev))"

definition parse_fill_event :: "market \<Rightarrow> event \<Rightarrow> error + filled_order" where
  "parse_fill_event m ev =
     (case py_truediv (price_before_fees ev * base_spl_token_multiplier (state m))
                      (quote_spl_token_multiplier (state m) * native_quantity_paid ev) of
        Inl e \<Rightarrow> Inl e
      | Inr price \<Rightarrow>
          (case py_truediv (native_quantity_paid ev) (base_spl_token_multiplier (state m)) of
             Inl e \<Rightarrow> Inl e
           | Inr sz \<Rightarrow>
               Inr \<lparr>fo_order_id = int_from_bytes_little (order_id ev),
                    fo_side = fill_side ev,
                    fo_price = price,
                    fo_size = sz,
                    fo_fee_cost = native_fee_or_rebate ev * (if maker (event_flags ev) then 1 else - 1)\<rparr>))"

section \<open>Collaborators and effects\<close>

text \<open>
  What the module keeps from other modules: an open-orders account (of which only the
  address is read), a transaction instruction, and the parameter records handed to the
  instruction builders.
\<close>

record open_orders_account =
  address :: public_key

record account_meta =
  pubkey :: public_key
  is_signer :: bool
  is_writable :: bool

record transaction_instruction =
  keys :: "account_meta list"
  ti_program_id :: public_key
  data :: "8 word list"

text \<open>A \<open>Transaction\<close> is the list of its instructions; \<open>add\<close> appends.\<close>

type_synonym transaction = "transaction_instruction list"

record new_order_params =
  nop_market :: public_key
  nop_open_orders :: public_key
  nop_payer :: public_key
  nop_owner :: public_key
  nop_request_queue :: public_key
  nop_base_vault :: public_key
  nop_quote_vault :: public_key
  nop_side :: side
  nop_limit_price :: int
  nop_max_quantity :: int
  nop_order_type :: order_type
  nop_client_id :: int
  nop_program_id :: public_key

record order =
  ord_order_id :: int
  ord_side :: side
  ord_open_order_address :: public_key
  ord_open_order_slot :: int

record cancel_order_params =
  cop_market :: public_key
  cop_owner :: public_key
  cop_open_orders :: public_key
  cop_request_queue :: public_key
  cop_side :: side
  cop_order_id :: int
  cop_open_orders_slot :: int
  cop_program_id :: public_key

record match_orders_params =
  mop_market :: public_key
  mop_request_queue :: public_key
  mop_event_queue :: public_key
  mop_bids :: public_key
  mop_asks :: public_key
  mop_base_vault :: public_key
  mop_quote_vault :: public_key
  mop_limit :: int
  mop_program_id :: public_key

text \<open>
  Everything \<open>market.py\<close> calls and does not define is a parameter: the RPC client
  (\<open>self._conn\<close>), the open-orders locator, the account reader, the queue decoder, the
  instruction builders, the size of the open-orders layout and the key pair that
  \<open>Account()\<close> draws. Each call that can raise returns a sum.
\<close>

record env =
  find_for_market_and_owner ::
    "public_key \<Rightarrow> public_key \<Rightarrow> public_key \<Rightarrow> error + open_orders_account list"
  get_minimum_balance_for_rent_exemption :: "int \<Rightarrow> error + rpc_response"
  conn_send_transaction :: "transaction \<Rightarrow> account list \<Rightarrow> bool \<Rightarrow> error + rpc_response"
  load_bytes_data :: "public_key \<Rightarrow> error + 8 word list"
  decode_event_queue :: "8 word list \<Rightarrow> int \<Rightarrow> error + event list"
  new_Account :: account
  OPEN_ORDERS_LAYOUT_sizeof :: int
  make_create_account_instruction ::
    "public_key \<Rightarrow> public_key \<Rightarrow> rpc_value \<Rightarrow> public_key \<Rightarrow> error + transaction_instruction"
  new_order :: "new_order_params \<Rightarrow> error + transaction_instruction"
  cancel_order_instruction :: "cancel_order_params \<Rightarrow> error + transaction_instruction"
  match_orders_instruction :: "match_orders_params \<Rightarrow> error + transaction_instruction"

text \<open>
  What a call does besides returning: the network requests it sends, in order, and the
  warning it logs. A method returns its result together with the effects it performed.
  No method of \<open>Market\<close> assigns to \<open>self\<close>, so the market is only read.
\<close>

datatype effect =
    NetFindOpenOrders public_key public_key public_key
  | NetGetMinimumBalanceForRentExemption int
  | NetSendTransaction transaction "account list" bool
  | NetLoadBytesData public_key
  | LogWarning string

type_synonym 'a outcome = "(error + 'a) \<times> effect list"

fun is_network_call :: "effect \<Rightarrow> bool" where
  "is_network_call (LogWarning _) = False"
| "is_network_call _ = True"

fun is_submission :: "effect \<Rightarrow> bool" where
  "is_submission (NetSendTransaction _ _ _) = True"
| "is_submission _ = False"

text \<open>
  Python's \<open>==\<close> between the objects compared at lines 166--167: two public keys are
  equal when their bytes are; a bound method is never equal to a public key
  (\<open>PublicKey.__eq__\<close> answers \<open>False\<close> for anything that is not a \<open>PublicKey\<close>).
\<close>

datatype py_object = PublicKeyObj public_key | BoundMethod string

fun py_eq :: "py_object \<Rightarrow> py_object \<Rightarrow> bool" where
  "py_eq (PublicKeyObj a) (PublicKeyObj b) = (a = b)"
| "py_eq (BoundMethod f) (BoundMethod g) = (f = g)"
| "py_eq _ _ = False"

section \<open>Operations of \<open>Market\<close>\<close>

subsection \<open>Operations that are not implemented\<close>

definition support_srm_fee_discounts :: "env \<Rightarrow> market \<Rightarrow> bool outcome" where
  "support_srm_fee_discounts env m =
     (Inl (NotImplementedError ''support_srm_fee_discounts not implemented''), [])"

definition find_fee_discount_keys :: "env \<Rightarrow> market \<Rightarrow> public_key \<Rightarrow> int \<Rightarrow> unit outcome" where
  "find_fee_discount_keys env m owner cache_duration =
     (Inl (NotImplementedError ''find_fee_discount_keys not implemented''), [])"

definition find_best_fee_discount_key :: "env \<Rightarrow> market \<Rightarrow> public_key \<Rightarrow> int \<Rightarrow> unit outcome" where
  "find_best_fee_discount_key env m owner cache_duration =
     (Inl (NotImplementedError ''find_best_fee_discount_key not implemented''), [])"

definition find_quote_token_accounts_for_owner ::
  "env \<Rightarrow> market \<Rightarrow> public_key \<Rightarrow> bool \<Rightarrow> unit outcome" where
  "find_quote_token_accounts_for_owner env m owner_address include_unwrapped_sol =
     (Inl (NotImplementedError ''find_quote_token_accounts_for_owner not implemented''), [])"

definition load_orders_for_owner :: "env \<Rightarrow> market \<Rightarrow> order list outcome" where
  "load_orders_for_owner env m =
     (Inl (NotImplementedError ''load_orders_for_owner not implemented''), [])"

definition load_base_token_for_owner :: "env \<Rightarrow> market \<Rightarrow> unit outcome" where
  "load_base_token_for_owner env m =
     (Inl (NotImplementedError ''load_base_token_for_owner not implemented''), [])"

definition cancel_order_by_client_id :: "env \<Rightarrow> market \<Rightarrow> string \<Rightarrow> string outcome" where
  "cancel_order_by_client_id env m owner =
     (Inl (NotImplementedError ''cancel_order_by_client_id not implemented''), [])"

definition settle_funds ::
  "env \<Rightarrow> market \<Rightarrow> account \<Rightarrow> open_orders_account \<Rightarrow> public_key \<Rightarrow> public_key \<Rightarrow> string outcome" where
  "settle_funds env m owner open_orders base_wallet quote_wallet =
     (Inl (NotImplementedError ''settle_funds not implemented''), [])"

subsection \<open>Loading fills\<close>

text \<open>A list comprehension over a function that can raise stops at the first exception.\<close>

fun map_result :: "('a \<Rightarrow> error + 'b) \<Rightarrow> 'a list \<Rightarrow> error + 'b list" where
  "map_result f [] = Inr []"
| "map_result f (x # xs) =
     (case f x of
        Inl e \<Rightarrow> Inl e
      | Inr y \<Rightarrow> (case map_result f xs of Inl e \<Rightarrow> Inl e | Inr ys \<Rightarrow> Inr (y # ys)))"

definition is_fill :: "event \<Rightarrow> bool" where
  "is_fill ev \<longleftrightarrow> fill (event_flags ev) \<and> native_quantity_paid ev > 0"

definition load_fills :: "env \<Rightarrow> market \<Rightarrow> int \<Rightarrow> filled_order list outcome" where
  "load_fills env m limit =
     (case load_bytes_data env (event_queue (state m)) of
        Inl e \<Rightarrow> (Inl e, [NetLoadBytesData (event_queue (state m))])
      | Inr bytes_data \<Rightarrow>
          (case decode_event_queue env bytes_data limit of
             Inl e \<Rightarrow> (Inl e, [NetLoadBytesData (event_queue (state m))])
           | Inr events \<Rightarrow>
               (map_result (parse_fill_event m) (filter is_fill events),
                [NetLoadBytesData (event_queue (state m))])))"

subsection \<open>Submitting a transaction\<close>

text \<open>\<open>Market._send_transaction\<close> (an Isabelle name cannot start with an underscore).\<close>

definition send_transaction :: "env \<Rightarrow> market \<Rightarrow> transaction \<Rightarrow> account list \<Rightarrow> string outcome" where
  "send_transaction env m txn signers =
     (case conn_send_transaction env txn signers (skip_preflight m) of
        Inl e \<Rightarrow> (Inl e, [NetSendTransaction txn signers (skip_preflight m)])
      | Inr res \<Rightarrow>
          (let effs = NetSendTransaction txn signers (skip_preflight m) #
                      (if confirmations m > 0 then [LogWarning ''Cannot confirm transaction yet.''] else []);
               signature = dict_get res ''result''
           in if \<not> truthy signature
              then (Inl (Exception ''Transaction not sent successfully''), effs)
              else (Inr (py_str signature), effs)))"

subsection \<open>Placing an order\<close>

definition find_open_orders_accounts_for_owner ::
  "env \<Rightarrow> market \<Rightarrow> public_key \<Rightarrow> open_orders_account list outcome" where
  "find_open_orders_accounts_for_owner env m owner_address =
     (find_for_market_and_owner env (public_key (state m)) owner_address (program_id (state m)),
      [NetFindOpenOrders (public_key (state m)) owner_address (program_id (state m))])"

definition make_place_order_instruction ::
  "env \<Rightarrow> market \<Rightarrow> public_key \<Rightarrow> account \<Rightarrow> order_type \<Rightarrow> side \<Rightarrow> int \<Rightarrow> int \<Rightarrow> int \<Rightarrow> public_key
     \<Rightarrow> error + transaction_instruction" where
  "make_place_order_instruction env m payer owner ot sd limit_price max_quantity client_id open_order_account =
     (if base_size_number_to_lots (state m) max_quantity < 0
      then Inl (Exception (''Size lot '' @ string_of_int max_quantity @ '' is too small''))
      else if price_number_to_lots (state m) limit_price < 0
      then Inl (Exception (''Price lot '' @ string_of_int limit_price @ '' is too small''))
      else new_order env
             \<lparr>nop_market = public_key (state m),
              nop_open_orders = open_order_account,
              nop_payer = payer,
              nop_owner = account_public_key owner,
              nop_request_queue = request_queue (state m),
              nop_base_vault = base_vault (state m),
              nop_quote_vault = quote_vault (state m),
              nop_side = sd,
              nop_limit_price = limit_price,
              nop_max_quantity = max_quantity,
              nop_order_type = ot,
              nop_client_id = client_id,
              nop_program_id = program_id (state m)\<rparr>)"

text \<open>
  Lines 147--158 of \<open>place_order\<close>, the branch taken when the owner has no open-orders
  account: the transaction and the signers it leaves behind.
\<close>

definition create_open_orders_account ::
  "env \<Rightarrow> market \<Rightarrow> account \<Rightarrow> (transaction \<times> account list) outcome" where
  "create_open_orders_account env m owner =
     (case get_minimum_balance_for_rent_exemption env (OPEN_ORDERS_LAYOUT_sizeof env) of
        Inl e \<Rightarrow> (Inl e, [NetGetMinimumBalanceForRentExemption (OPEN_ORDERS_LAYOUT_sizeof env)])
      | Inr mbfre_resp \<Rightarrow>
          (case dict_subscript mbfre_resp ''result'' of
             Inl e \<Rightarrow> (Inl e, [NetGetMinimumBalanceForRentExemption (OPEN_ORDERS_LAYOUT_sizeof env)])
           | Inr balanced_needed \<Rightarrow>
               (case make_create_account_instruction env (account_public_key owner)
                       (account_public_key (new_Account env)) balanced_needed (program_id (state m)) of
                  Inl e \<Rightarrow> (Inl e, [NetGetMinimumBalanceForRentExemption (OPEN_ORDERS_LAYOUT_sizeof env)])
                | Inr ins \<Rightarrow>
                    (Inr ([ins], [owner, new_Account env]),
                     [NetGetMinimumBalanceForRentExemption (OPEN_ORDERS_LAYOUT_sizeof env)]))))"

text \<open>
  The test of lines 166--167. \<open>self.state.quote_mint()\<close> is called and yields a public
  key; \<open>self.state.base_mint\<close> is written without the call, so what is compared with
  \<open>WRAPPED_SOL_MINT\<close> there is the bound method itself.
\<close>

definition wrapped_sol_unsupported :: "market \<Rightarrow> side \<Rightarrow> bool" where
  "wrapped_sol_unsupported m sd \<longleftrightarrow>
     (sd = Buy \<and> py_eq (PublicKeyObj (quote_mint (state m))) (PublicKeyObj WRAPPED_SOL_MINT)) \<or>
     (sd = Sell \<and> py_eq (BoundMethod ''base_mint'') (PublicKeyObj WRAPPED_SOL_MINT))"

definition place_order ::
  "env \<Rightarrow> market \<Rightarrow> public_key \<Rightarrow> account \<Rightarrow> order_type \<Rightarrow> side \<Rightarrow> int \<Rightarrow> int \<Rightarrow> int \<Rightarrow> string outcome" where
  "place_order env m payer owner ot sd limit_price max_quantity client_id =
     (case find_open_orders_accounts_for_owner env m (account_public_key owner) of
        (Inl e, effs1) \<Rightarrow> (Inl e, effs1)
      | (Inr open_order_accounts, effs1) \<Rightarrow>
          (case (if open_order_accounts = [] then create_open_orders_account env m owner
                 else (Inr ([], [owner]), [])) of
             (Inl e, effs2) \<Rightarrow> (Inl e, effs1 @ effs2)
           | (Inr (txn, signers), effs2) \<Rightarrow>
               if payer = account_public_key owner
               then (Inl (ValueError ''Invalid payer account''), effs1 @ effs2)
               else if wrapped_sol_unsupported m sd
               then (Inl (NotImplementedError ''WRAPPED_SOL_MINT is currently unsupported''), effs1 @ effs2)
               else
                 (case make_place_order_instruction env m payer owner ot sd limit_price max_quantity client_id
                         (if open_order_accounts \<noteq> [] then address (hd open_order_accounts)
                          else account_public_key (new_Account env)) of
                    Inl e \<Rightarrow> (Inl e, effs1 @ effs2)
                  | Inr ins \<Rightarrow>
                      (case send_transaction env m (txn @ [ins]) signers of
                         (r, effs3) \<Rightarrow> (r, effs1 @ effs2 @ effs3)))))"

subsection \<open>Cancelling and matching\<close>

definition make_cancel_order_instruction ::
  "env \<Rightarrow> market \<Rightarrow> public_key \<Rightarrow> order \<Rightarrow> error + transaction_instruction" where
  "make_cancel_order_instruction env m owner ord =
     cancel_order_instruction env
       \<lparr>cop_market = public_key (state m),
        cop_owner = owner,
        cop_open_orders = ord_open_order_address ord,
        cop_request_queue = request_queue (state m),
        cop_side = ord_side ord,
        cop_order_id = ord_order_id ord,
        cop_open_orders_slot = ord_open_order_slot ord,
        cop_program_id = program_id (state m)\<rparr>"

definition make_match_orders_instruction :: "env \<Rightarrow> market \<Rightarrow> int \<Rightarrow> error + transaction_instruction" where
  "make_match_orders_instruction env m limit =
     match_orders_instruction env
       \<lparr>mop_market = public_key (state m),
        mop_request_queue = request_queue (state m),
        mop_event_queue = event_queue (state m),
        mop_bids = bids (state m),
        mop_asks = asks (state m),
        mop_base_vault = base_vault (state m),
        mop_quote_vault = quote_vault (state m),
        mop_limit = limit,
        mop_program_id = program_id (state m)\<rparr>"

definition cancel_order :: "env \<Rightarrow> market \<Rightarrow> account \<Rightarrow> order \<Rightarrow> string outcome" where
  "cancel_order env m owner ord =
     (case make_cancel_order_instruction env m (account_public_key owner) ord of
        Inl e \<Rightarrow> (Inl e, [])
      | Inr ins \<Rightarrow> send_transaction env m [ins] [owner])"

definition match_orders :: "env \<Rightarrow> market \<Rightarrow> account \<Rightarrow> int \<Rightarrow> string outcome" where
  "match_orders env m fee_payer limit =
     (case make_match_orders_instruction env m limit of
        Inl e \<Rightarrow> (Inl e, [])
      | Inr ins \<Rightarrow> send_transaction env m [ins] [fee_payer])"

section \<open>Concrete markets, events and environments\<close>

text \<open>
  A market whose lot conversions are \<open>quantity div 100\<close> and \<open>price div 10\<close> with both
  token multipliers equal to one, the events used below, and an environment in which
  every collaborator answers.
\<close>

definition example_state :: market_state where
  "example_state =
     \<lparr>public_key = PublicKey ''market'', program_id = PublicKey ''dex'',
      request_queue = PublicKey ''requests'', event_queue = PublicKey ''events'',
      bids = PublicKey ''bids'', asks = PublicKey ''asks'',
      base_vault = PublicKey ''base_vault'', quote_vault = PublicKey ''quote_vault'',
      base_mint = PublicKey ''base'', quote_mint = PublicKey ''quote'',
      base_spl_token_multiplier = 1, quote_spl_token_multiplier = 1,
      base_size_number_to_lots = (\<lambda>n. n div 100), price_number_to_lots = (\<lambda>n. n div 10)\<rparr>"

definition example_market :: market where
  "example_market = \<lparr>skip_preflight = False, confirmations = 0, state = example_state\<rparr>"

definition wrapped_base_market :: market where
  "wrapped_base_market =
     \<lparr>skip_preflight = False, confirmations = 0,
      state = example_state\<lparr>base_mint := WRAPPED_SOL_MINT\<rparr>\<rparr>"

definition wrapped_quote_market :: market where
  "wrapped_quote_market =
     \<lparr>skip_preflight = False, confirmations = 0,
      state = example_state\<lparr>quote_mint := WRAPPED_SOL_MINT\<rparr>\<rparr>"

definition maker_bid_fill :: event where
  "maker_bid_fill =
     \<lparr>event_flags = \<lparr>fill = True, out = False, bid = True, maker = True\<rparr>,
      native_quantity_released = 1000, native_quantity_paid = 500,
      native_fee_or_rebate = 10, order_id = [1, 2]\<rparr>"

definition taker_ask_fill :: event where
  "taker_ask_fill =
     \<lparr>event_flags = \<lparr>fill = True, out = False, bid = False, maker = False\<rparr>,
      native_quantity_released = 1000, native_quantity_paid = 500,
      native_fee_or_rebate = 10, order_id = [3]\<rparr>"

definition out_event :: event where
  "out_event =
     \<lparr>event_flags = \<lparr>fill = False, out = True, bid = True, maker = False\<rparr>,
      native_quantity_released = 7, native_quantity_paid = 0,
      native_fee_or_rebate = 0, order_id = [4]\<rparr>"

definition example_owner :: account where
  "example_owner = Account (PublicKey ''owner'')"

definition example_payer :: public_key where
  "example_payer = PublicKey ''payer''"

definition example_instruction :: "string \<Rightarrow> public_key \<Rightarrow> public_key \<Rightarrow> transaction_instruction" where
  "example_instruction tag k p =
     \<lparr>keys = [\<lparr>pubkey = k, is_signer = False, is_writable = True\<rparr>],
      ti_program_id = p,
      data = map (\<lambda>c. of_nat (of_char c)) tag\<rparr>"

definition example_env :: env where
  "example_env =
     \<lparr>find_for_market_and_owner = (\<lambda>mkt owner prog. Inr [\<lparr>address = PublicKey ''open_orders''\<rparr>,
                                                           \<lparr>address = PublicKey ''open_orders_2''\<rparr>]),
      get_minimum_balance_for_rent_exemption = (\<lambda>n. Inr [''result'' \<mapsto> RInt 23357760]),
      conn_send_transaction = (\<lambda>txn signers skip. Inr [''result'' \<mapsto> RStr ''5sig'']),
      load_bytes_data = (\<lambda>k. Inr []),
      decode_event_queue = (\<lambda>bs limit. Inr [maker_bid_fill, out_event, taker_ask_fill]),
      new_Account = Account (PublicKey ''fresh''),
      OPEN_ORDERS_LAYOUT_sizeof = 3228,
      make_create_account_instruction = (\<lambda>from_key new_key lamports prog.
         Inr (example_instruction ''create'' new_key prog)),
      new_order = (\<lambda>ps. Inr (example_instruction ''new_order'' (nop_open_orders ps) (nop_program_id ps))),
      cancel_order_instruction = (\<lambda>ps. Inr (example_instruction ''cancel'' (cop_open_orders ps) (cop_program_id ps))),
      match_orders_instruction = (\<lambda>ps. Inr (example_instruction ''match'' (mop_market ps) (mop_program_id ps)))\<rparr>"

text \<open>The same environment when the owner has no open-orders account yet.\<close>

definition no_account_env :: env where
  "no_account_env = example_env\<lparr>find_for_market_and_owner := (\<lambda>mkt owner prog. Inr [])\<rparr>"

text \<open>
  ... and when, besides, the node answers the rent-exemption query with an error
  object, so that the response has no \<open>result\<close> entry.
\<close>

definition rent_error_env :: env where
  "rent_error_env =
     no_account_env\<lparr>get_minimum_balance_for_rent_exemption := (\<lambda>n. Inr [''error'' \<mapsto> RStr ''node is behind''])\<rparr>"

section \<open>Fill parsing: the worked example and the fee convention\<close>

lemma py_truediv_1010_500: "py_truediv 1010 500 = Inr (4548635623644201 / 2251799813685248)"
  by code_simp

lemma py_truediv_202_100: "py_truediv 202 100 = Inr (4548635623644201 / 2251799813685248)"
  by code_simp

lemma py_truediv_500_1: "py_truediv 500 1 = Inr 500"
  by code_simp

text \<open>
  Claim C2. The fill event with the bid and maker flags set, 1000 released, a fee of 10
  and 500 paid, on a market whose two multipliers are 1, parses to a buy of size 500
  with fee cost 10; its price before fees is 1010 and its price is the float
  \<open>1010 / 500\<close>. That float is the double \<open>4548635623644201 / 2^51\<close>, which is also what
  the literal \<open>2.02\<close> denotes (the float \<open>202 / 100\<close>) and lies within \<open>2^-53\<close> of the
  exact quotient.
\<close>

theorem parse_fill_event_maker_bid:
  "parse_fill_event example_market maker_bid_fill =
     Inr \<lparr>fo_order_id = 513, fo_side = Buy, fo_price = 4548635623644201 / 2251799813685248,
          fo_size = 500, fo_fee_cost = 10\<rparr>
   \<and> price_before_fees maker_bid_fill = 1010
   \<and> py_truediv 202 100 = Inr (4548635623644201 / 2251799813685248)
   \<and> \<bar>(4548635623644201 / 2251799813685248 :: rat) - 1010 / 500\<bar> \<le> 1 / 2 ^ 53"
  by (simp add: parse_fill_event_def example_market_def example_state_def maker_bid_fill_def
      price_before_fees_def fill_side_def py_truediv_1010_500 py_truediv_500_1 py_truediv_202_100)

text \<open>
  Claim C3, as the code has it. For an event whose maker flag is not set the fee is
  subtracted from the released quantity when the event is a buy (bid flag set) and
  added to it when the event is a sell (bid flag not set): the two signs are the other
  way round from the claim.
\<close>

theorem price_before_fees_taker:
  "\<not> maker (event_flags ev) \<Longrightarrow>
   price_before_fees ev =
     (if bid (event_flags ev) then native_quantity_released ev - native_fee_or_rebate ev
      else native_quantity_released ev + native_fee_or_rebate ev)"
  by (simp add: price_before_fees_def)

theorem price_before_fees_taker_witness:
  "\<not> maker (event_flags taker_ask_fill) \<and> \<not> bid (event_flags taker_ask_fill) \<and>
   price_before_fees taker_ask_fill = 1000 + 10"
  using price_before_fees_taker [of taker_ask_fill] by (simp add: taker_ask_fill_def)

text \<open>
  Claim C3 as stated fails on a sell that is not a maker, with 1000 released and a fee
  of 10: subtracting the fee would give 990, the code computes 1010.
\<close>

theorem price_before_fees_taker_sell_counterexample:
  "\<not> maker (event_flags taker_ask_fill) \<and> \<not> bid (event_flags taker_ask_fill) \<and>
   native_quantity_released taker_ask_fill - native_fee_or_rebate taker_ask_fill = 990 \<and>
   price_before_fees taker_ask_fill = 1010"
  by (simp add: price_before_fees_def taker_ask_fill_def)

section \<open>Submitting a transaction\<close>

lemma send_transaction_submissions:
  "filter is_submission (snd (send_transaction env m txn signers)) =
     [NetSendTransaction txn signers (skip_preflight m)]"
  by (simp add: send_transaction_def Let_def split: sum.split)

lemma send_transaction_result:
  "fst (send_transaction env m txn signers) =
     (case conn_send_transaction env txn signers (skip_preflight m) of
        Inl e \<Rightarrow> Inl e
      | Inr res \<Rightarrow>
          if truthy (dict_get res ''result'') then Inr (py_str (dict_get res ''result''))
          else Inl (Exception ''Transaction not sent successfully''))"
  by (simp add: send_transaction_def Let_def split: sum.split)

text \<open>
  Claim C8. Every call of \<open>_send_transaction\<close> sends the transaction to the submitter
  exactly once, whatever comes back. When the submitter answers with a response whose
  \<open>result\<close> is missing, \<open>None\<close> or empty, the call fails with the exception
  \<open>Transaction not sent successfully\<close>; when the response carries a signature, the call
  returns it as a string (a string signature comes back unchanged). When the
  submitter itself raises, that error is what the call raises, after its single attempt.
\<close>

theorem send_transaction_one_attempt:
  "filter is_submission (snd (send_transaction env m txn signers)) =
     [NetSendTransaction txn signers (skip_preflight m)] \<and>
   (\<forall>res. conn_send_transaction env txn signers (skip_preflight m) = Inr res \<longrightarrow>
      (\<not> truthy (dict_get res ''result'') \<longrightarrow>
         fst (send_transaction env m txn signers) = Inl (Exception ''Transaction not sent successfully'')) \<and>
      (truthy (dict_get res ''result'') \<longrightarrow>
         fst (send_transaction env m txn signers) = Inr (py_str (dict_get res ''result''))) \<and>
      (\<forall>s. res ''result'' = Some (RStr s) \<and> s \<noteq> [] \<longrightarrow>
         fst (send_transaction env m txn signers) = Inr s)) \<and>
   (\<forall>e. conn_send_transaction env txn signers (skip_preflight m) = Inl e \<longrightarrow>
      fst (send_transaction env m txn signers) = Inl e)"
  by (simp add: send_transaction_submissions send_transaction_result dict_get_def)

theorem send_transaction_one_attempt_witness:
  "conn_send_transaction example_env [] [example_owner] (skip_preflight example_market) =
     Inr [''result'' \<mapsto> RStr ''5sig''] \<and>
   truthy (dict_get [''result'' \<mapsto> RStr ''5sig''] ''result'') \<and>
   send_transaction example_env example_market [] [example_owner] =
     (Inr ''5sig'', [NetSendTransaction [] [example_owner] False]) \<and>
   conn_send_transaction (example_env\<lparr>conn_send_transaction := (\<lambda>t s p. Inr Map.empty)\<rparr>) []
     [example_owner] (skip_preflight example_market) = Inr Map.empty \<and>
   \<not> truthy (dict_get Map.empty ''result'') \<and>
   fst (send_transaction (example_env\<lparr>conn_send_transaction := (\<lambda>t s p. Inr Map.empty)\<rparr>)
          example_market [] [example_owner]) = Inl (Exception ''Transaction not sent successfully'') \<and>
   conn_send_transaction
     (example_env\<lparr>conn_send_transaction := (\<lambda>t s p. Inl (TransportError ''timed out''))\<rparr>) []
     [example_owner] (skip_preflight example_market) = Inl (TransportError ''timed out'') \<and>
   fst (send_transaction
          (example_env\<lparr>conn_send_transaction := (\<lambda>t s p. Inl (TransportError ''timed out''))\<rparr>)
          example_market [] [example_owner]) = Inl (TransportError ''timed out'')"
  using send_transaction_one_attempt [of example_env example_market "[]" "[example_owner]"]
    send_transaction_one_attempt [of "example_env\<lparr>conn_send_transaction := (\<lambda>t s p. Inr Map.empty)\<rparr>"
      example_market "[]" "[example_owner]"]
    send_transaction_one_attempt
      [of "example_env\<lparr>conn_send_transaction := (\<lambda>t s p. Inl (TransportError ''timed out''))\<rparr>"
      example_market "[]" "[example_owner]"]
  by (simp add: example_env_def example_market_def dict_get_def send_transaction_def)

section \<open>Placing an order\<close>

lemma string_of_int_minus_1: "string_of_int (- 1) = ''-1''"
  by code_simp

lemma create_open_orders_account_effects:
  "snd (create_open_orders_account env m owner) =
     [NetGetMinimumBalanceForRentExemption (OPEN_ORDERS_LAYOUT_sizeof env)]"
  by (simp add: create_open_orders_account_def split: sum.split)

lemma create_open_orders_account_Inr:
  "fst (create_open_orders_account env m owner) = Inr (txn, signers) \<longleftrightarrow>
     (\<exists>resp bal ins.
        get_minimum_balance_for_rent_exemption env (OPEN_ORDERS_LAYOUT_sizeof env) = Inr resp \<and>
        resp ''result'' = Some bal \<and>
        make_create_account_instruction env (account_public_key owner)
          (account_public_key (new_Account env)) bal (program_id (state m)) = Inr ins \<and>
        txn = [ins] \<and> signers = [owner, new_Account env])"
  by (auto simp: create_open_orders_account_def dict_subscript_def split: sum.split option.split)

lemma make_place_order_instruction_negative:
  "base_size_number_to_lots (state m) max_quantity < 0 \<or>
   price_number_to_lots (state m) limit_price < 0 \<Longrightarrow>
   \<exists>msg. make_place_order_instruction env m payer owner ot sd limit_price max_quantity cid addr =
     Inl (Exception msg)"
  by (auto simp: make_place_order_instruction_def)

lemma place_order_effects_prefix:
  "\<exists>rest. snd (place_order env m payer owner ot sd lp mq cid) =
     NetFindOpenOrders (public_key (state m)) (account_public_key owner) (program_id (state m)) # rest"
  by (auto simp: place_order_def find_open_orders_accounts_for_owner_def
      split: sum.split prod.split if_splits)

text \<open>
  Claim C1, at the input where the code departs from it. On the example market a
  quantity of 50 converts to 0 size lots and a price of 5 to 0 price lots, both less
  than 1; \<open>make_place_order_instruction\<close> raises nothing and returns the new-order
  instruction, because its two guards test \<open>< 0\<close>.
\<close>

theorem make_place_order_instruction_zero_lots: "base_size_number_to_lots (state example_market) 50 = 0 \<and>
   price_number_to_lots (state example_market) 5 = 0 \<and>
   make_place_order_instruction example_env example_market example_payer example_owner Limit Buy 5 50 0
     (PublicKey ''open_orders'') =
     Inr (example_instruction ''new_order'' (PublicKey ''open_orders'') (PublicKey ''dex''))"
  by (simp add: make_place_order_instruction_def example_env_def example_market_def example_state_def)

text \<open>
  Claim C9 as stated fails when the owner has no open-orders account and the
  rent-exemption response has no \<open>result\<close> entry: the payer equals the owner's key,
  yet the call raises \<open>KeyError\<close> at line 149, before the payer check of line 164.
\<close>

theorem place_order_invalid_payer_rent_error:
  "place_order rent_error_env example_market (account_public_key example_owner) example_owner Limit Buy 50 500 0 =
     (Inl (KeyError ''result''),
      [NetFindOpenOrders (PublicKey ''market'') (PublicKey ''owner'') (PublicKey ''dex''),
       NetGetMinimumBalanceForRentExemption 3228])"
  by (simp add: place_order_def find_open_orders_accounts_for_owner_def create_open_orders_account_def
      rent_error_env_def no_account_env_def example_env_def example_market_def example_state_def
      example_owner_def dict_subscript_def)

text \<open>
  Claim C10, at the input where the code departs from it. A sell on a market whose
  base mint is the wrapped native mint is not refused: the new-order instruction is
  built and the transaction is submitted.
\<close>

theorem place_order_sell_wrapped_base_submits:
  "base_mint (state wrapped_base_market) = WRAPPED_SOL_MINT \<and>
   place_order example_env wrapped_base_market example_payer example_owner Limit Sell 50 500 0 =
     (Inr ''5sig'',
      [NetFindOpenOrders (PublicKey ''market'') (PublicKey ''owner'') (PublicKey ''dex''),
       NetSendTransaction [example_instruction ''new_order'' (PublicKey ''open_orders'') (PublicKey ''dex'')]
         [example_owner] False])"
  by (simp add: place_order_def find_open_orders_accounts_for_owner_def send_transaction_def
      make_place_order_instruction_def wrapped_sol_unsupported_def dict_get_def
      example_env_def wrapped_base_market_def example_state_def example_payer_def
      example_owner_def Let_def)

text \<open>
  Claim C5 as stated fails on a quantity of -1, which converts to -1 size lots: the
  lot-size exception is raised, but only after the open-orders lookup has gone to the
  network and, when the owner has no account, after the rent-exemption query too.
\<close>

theorem place_order_lot_error_network_first:
  "base_size_number_to_lots (state example_market) (- 1) = - 1 \<and>
   place_order example_env example_market example_payer example_owner Limit Buy 50 (- 1) 0 =
     (Inl (Exception ''Size lot -1 is too small''),
      [NetFindOpenOrders (PublicKey ''market'') (PublicKey ''owner'') (PublicKey ''dex'')]) \<and>
   place_order no_account_env example_market example_payer example_owner Limit Buy 50 (- 1) 0 =
     (Inl (Exception ''Size lot -1 is too small''),
      [NetFindOpenOrders (PublicKey ''market'') (PublicKey ''owner'') (PublicKey ''dex''),
       NetGetMinimumBalanceForRentExemption 3228])"
  by (simp add: place_order_def find_open_orders_accounts_for_owner_def create_open_orders_account_def
      make_place_order_instruction_def wrapped_sol_unsupported_def dict_subscript_def
      no_account_env_def example_env_def example_market_def example_state_def example_payer_def
      example_owner_def string_of_int_minus_1 WRAPPED_SOL_MINT_def)

lemma place_order_no_submission_before_send:
  "payer = account_public_key owner \<or> wrapped_sol_unsupported m sd \<or>
   base_size_number_to_lots (state m) mq < 0 \<or> price_number_to_lots (state m) lp < 0 \<Longrightarrow>
   (\<exists>e. fst (place_order env m payer owner ot sd lp mq cid) = Inl e) \<and>
   filter is_submission (snd (place_order env m payer owner ot sd lp mq cid)) = []"
  by (auto simp: place_order_def find_open_orders_accounts_for_owner_def
      create_open_orders_account_def make_place_order_instruction_def
      split: sum.split prod.split)

lemma place_order_reaches_checks:
  assumes "find_for_market_and_owner env (public_key (state m)) (account_public_key owner)
             (program_id (state m)) = Inr accs"
      and "accs = [] \<longrightarrow> (\<exists>txs. fst (create_open_orders_account env m owner) = Inr txs)"
  shows "place_order env m payer owner ot sd lp mq cid =
     (let effs = NetFindOpenOrders (public_key (state m)) (account_public_key owner) (program_id (state m)) #
                 (if accs = [] then [NetGetMinimumBalanceForRentExemption (OPEN_ORDERS_LAYOUT_sizeof env)] else []);
          txn = (if accs = [] then fst (projr (fst (create_open_orders_account env m owner))) else []);
          signers = (if accs = [] then [owner, new_Account env] else [owner])
      in if payer = account_public_key owner
         then (Inl (ValueError ''Invalid payer account''), effs)
         else if wrapped_sol_unsupported m sd
         then (Inl (NotImplementedError ''WRAPPED_SOL_MINT is currently unsupported''), effs)
         else
           (case make_place_order_instruction env m payer owner ot sd lp mq cid
                   (if accs \<noteq> [] then address (hd accs) else account_public_key (new_Account env)) of
              Inl e \<Rightarrow> (Inl e, effs)
            | Inr ins \<Rightarrow> (fst (send_transaction env m (txn @ [ins]) signers),
                          effs @ snd (send_transaction env m (txn @ [ins]) signers))))"
proof (cases "accs = []")
  case False
  with assms(1) show ?thesis
    by (simp add: place_order_def find_open_orders_accounts_for_owner_def Let_def
        split: sum.split prod.split)
next
  case True
  with assms(2) obtain txn signers where
    c: "fst (create_open_orders_account env m owner) = Inr (txn, signers)"
    by (cases "fst (create_open_orders_account env m owner)") auto
  then have s: "signers = [owner, new_Account env]"
    by (auto simp: create_open_orders_account_Inr)
  obtain r effs where re: "create_open_orders_account env m owner = (r, effs)"
    by (cases "create_open_orders_account env m owner")
  with c create_open_orders_account_effects [of env m owner]
  have "create_open_orders_account env m owner =
    (Inr (txn, signers), [NetGetMinimumBalanceForRentExemption (OPEN_ORDERS_LAYOUT_sizeof env)])"
    by simp
  with True assms(1) s show ?thesis
    by (simp add: place_order_def find_open_orders_accounts_for_owner_def Let_def
        split: sum.split prod.split)
qed

text \<open>
  Claim C9, as the code has it. A call of \<open>place_order\<close> whose payer is the owner's
  public key always fails and never submits a transaction; it fails with
  \<open>ValueError "Invalid payer account"\<close> whenever the open-orders lookup before the check
  returned and, if it found no account, the rent-exemption query and the create-account
  instruction were obtained.
\<close>

theorem place_order_invalid_payer:
  assumes "payer = account_public_key owner"
  shows "(\<exists>e. fst (place_order env m payer owner ot sd lp mq cid) = Inl e) \<and>
     filter is_submission (snd (place_order env m payer owner ot sd lp mq cid)) = [] \<and>
     (\<forall>accs. find_for_market_and_owner env (public_key (state m)) (account_public_key owner)
               (program_id (state m)) = Inr accs \<and>
             (accs = [] \<longrightarrow> (\<exists>txs. fst (create_open_orders_account env m owner) = Inr txs)) \<longrightarrow>
        fst (place_order env m payer owner ot sd lp mq cid) = Inl (ValueError ''Invalid payer account''))"
  using assms place_order_no_submission_before_send [of payer owner m sd mq lp env ot cid]
  by (auto simp: place_order_reaches_checks Let_def)

text \<open>
  Claim C5, as the code has it. A call of \<open>place_order\<close> whose quantity or price
  converts to a negative number of lots always fails and never submits a transaction.
  When the open-orders lookup returns (and, if it finds no account, the create-account
  step goes through), the payer differs from the owner and the wrapped-mint test passes,
  the failure is the lot-size exception, and the network calls made before it are
  exactly the open-orders lookup, followed by the rent-exemption query when no account
  exists.
\<close>

theorem place_order_lot_error_after_lookup:
  assumes "base_size_number_to_lots (state m) mq < 0 \<or> price_number_to_lots (state m) lp < 0"
  shows "(\<exists>e. fst (place_order env m payer owner ot sd lp mq cid) = Inl e) \<and>
     filter is_submission (snd (place_order env m payer owner ot sd lp mq cid)) = [] \<and>
     (\<forall>accs. find_for_market_and_owner env (public_key (state m)) (account_public_key owner)
               (program_id (state m)) = Inr accs \<and>
             (accs = [] \<longrightarrow> (\<exists>txs. fst (create_open_orders_account env m owner) = Inr txs)) \<and>
             payer \<noteq> account_public_key owner \<and> \<not> wrapped_sol_unsupported m sd \<longrightarrow>
        (\<exists>msg. fst (place_order env m payer owner ot sd lp mq cid) = Inl (Exception msg)) \<and>
        snd (place_order env m payer owner ot sd lp mq cid) =
          NetFindOpenOrders (public_key (state m)) (account_public_key owner) (program_id (state m)) #
          (if accs = [] then [NetGetMinimumBalanceForRentExemption (OPEN_ORDERS_LAYOUT_sizeof env)] else []))"
proof -
  have a: "(\<exists>e. fst (place_order env m payer owner ot sd lp mq cid) = Inl e) \<and>
     filter is_submission (snd (place_order env m payer owner ot sd lp mq cid)) = []"
    using assms place_order_no_submission_before_send [of payer owner m sd mq lp env ot cid] by blast
  have b: "\<And>addr. \<exists>msg. make_place_order_instruction env m payer owner ot sd lp mq cid addr =
     Inl (Exception msg)"
    using assms by (rule make_place_order_instruction_negative)
  show ?thesis
  proof (intro conjI allI impI)
    fix accs
    assume h: "find_for_market_and_owner env (public_key (state m)) (account_public_key owner)
               (program_id (state m)) = Inr accs \<and>
             (accs = [] \<longrightarrow> (\<exists>txs. fst (create_open_orders_account env m owner) = Inr txs)) \<and>
             payer \<noteq> account_public_key owner \<and> \<not> wrapped_sol_unsupported m sd"
    obtain msg where m: "make_place_order_instruction env m payer owner ot sd lp mq cid
        (if accs \<noteq> [] then address (hd accs) else account_public_key (new_Account env)) = Inl (Exception msg)"
      using b by blast
    from h m show "\<exists>msg. fst (place_order env m payer owner ot sd lp mq cid) = Inl (Exception msg)"
      by (simp add: place_order_reaches_checks Let_def)
    from h m show "snd (place_order env m payer owner ot sd lp mq cid) =
          NetFindOpenOrders (public_key (state m)) (account_public_key owner) (program_id (state m)) #
          (if accs = [] then [NetGetMinimumBalanceForRentExemption (OPEN_ORDERS_LAYOUT_sizeof env)] else [])"
      by (simp add: place_order_reaches_checks Let_def)
  qed (use a in auto)
qed

lemma make_place_order_instruction_Inr:
  "make_place_order_instruction env m payer owner ot sd lp mq cid addr = Inr ins \<Longrightarrow>
   \<exists>ps. new_order env ps = Inr ins \<and> nop_open_orders ps = addr \<and> nop_payer ps = payer \<and>
        nop_owner ps = account_public_key owner \<and> nop_market ps = public_key (state m)"
  by (auto simp: make_place_order_instruction_def split: if_splits)

lemma place_order_submission_cases:
  assumes "NetSendTransaction txn signers sp \<in> set (snd (place_order env m payer owner ot sd lp mq cid))"
  shows "\<exists>accs. find_for_market_and_owner env (public_key (state m)) (account_public_key owner)
             (program_id (state m)) = Inr accs \<and>
     (accs \<noteq> [] \<longrightarrow> signers = [owner] \<and>
        (\<exists>ins. make_place_order_instruction env m payer owner ot sd lp mq cid (address (hd accs)) = Inr ins \<and>
               txn = [ins])) \<and>
     (accs = [] \<longrightarrow> signers = [owner, new_Account env] \<and>
        (\<exists>resp bal cins ins.
           get_minimum_balance_for_rent_exemption env (OPEN_ORDERS_LAYOUT_sizeof env) = Inr resp \<and>
           resp ''result'' = Some bal \<and>
           make_create_account_instruction env (account_public_key owner)
             (account_public_key (new_Account env)) bal (program_id (state m)) = Inr cins \<and>
           make_place_order_instruction env m payer owner ot sd lp mq cid
             (account_public_key (new_Account env)) = Inr ins \<and>
           txn = [cins, ins]))"
  using assms
  by (auto simp: place_order_def find_open_orders_accounts_for_owner_def
      create_open_orders_account_def send_transaction_def dict_subscript_def Let_def
      split: sum.splits prod.splits if_splits option.splits)

lemma wrapped_sol_unsupported_iff:
  "wrapped_sol_unsupported m sd \<longleftrightarrow> sd = Buy \<and> quote_mint (state m) = WRAPPED_SOL_MINT"
  by (simp add: wrapped_sol_unsupported_def)

lemma place_order_wrapped_quote_buy:
  assumes "find_for_market_and_owner env (public_key (state m)) (account_public_key owner)
             (program_id (state m)) = Inr accs"
      and "accs = [] \<longrightarrow> (\<exists>txs. fst (create_open_orders_account env m owner) = Inr txs)"
      and "payer \<noteq> account_public_key owner"
      and "quote_mint (state m) = WRAPPED_SOL_MINT"
  shows "fst (place_order env m payer owner ot Buy lp mq cid) =
           Inl (NotImplementedError ''WRAPPED_SOL_MINT is currently unsupported'') \<and>
         filter is_submission (snd (place_order env m payer owner ot Buy lp mq cid)) = []"
  using assms by (simp add: place_order_reaches_checks wrapped_sol_unsupported_iff Let_def)

lemma place_order_example:
  "place_order example_env example_market example_payer example_owner Limit Buy 50 500 0 =
     (Inr ''5sig'',
      [NetFindOpenOrders (PublicKey ''market'') (PublicKey ''owner'') (PublicKey ''dex''),
       NetSendTransaction [example_instruction ''new_order'' (PublicKey ''open_orders'') (PublicKey ''dex'')]
         [example_owner] False])"
  by (simp add: place_order_def find_open_orders_accounts_for_owner_def send_transaction_def
      make_place_order_instruction_def wrapped_sol_unsupported_def dict_get_def
      example_env_def example_market_def example_state_def example_payer_def
      example_owner_def Let_def WRAPPED_SOL_MINT_def)

lemma place_order_no_account:
  "place_order no_account_env example_market example_payer example_owner Limit Buy 50 500 0 =
     (Inr ''5sig'',
      [NetFindOpenOrders (PublicKey ''market'') (PublicKey ''owner'') (PublicKey ''dex''),
       NetGetMinimumBalanceForRentExemption 3228,
       NetSendTransaction
         [example_instruction ''create'' (PublicKey ''fresh'') (PublicKey ''dex''),
          example_instruction ''new_order'' (PublicKey ''fresh'') (PublicKey ''dex'')]
         [example_owner, Account (PublicKey ''fresh'')] False])"
  by (simp add: place_order_def find_open_orders_accounts_for_owner_def send_transaction_def
      create_open_orders_account_def dict_subscript_def
      make_place_order_instruction_def wrapped_sol_unsupported_def dict_get_def
      no_account_env_def example_env_def example_market_def example_state_def example_payer_def
      example_owner_def Let_def WRAPPED_SOL_MINT_def)

text \<open>
  Claim C6. Whenever \<open>place_order\<close> submits a transaction, the open-orders lookup has
  returned a sequence. If the sequence is not empty, the transaction is the single
  new-order instruction built with the first account's address as its open-orders
  account, signed by the owner alone: no create-account instruction. If the sequence is
  empty, the transaction is the create-account instruction for the key pair drawn by
  \<open>Account()\<close>, built from the rent-exemption result, followed by the new-order
  instruction built on that new account's key, and the signers are the owner and the new
  account. Conversely, when the checks of lines 164--170 pass and the new-order
  instruction is built, exactly that transaction is submitted.
\<close>

theorem place_order_open_orders_resolution:
  "(\<forall>txn signers sp.
      NetSendTransaction txn signers sp \<in> set (snd (place_order env m payer owner ot sd lp mq cid)) \<longrightarrow>
      (\<exists>accs. find_for_market_and_owner env (public_key (state m)) (account_public_key owner)
                (program_id (state m)) = Inr accs \<and>
         (accs \<noteq> [] \<longrightarrow> signers = [owner] \<and>
            (\<exists>ps ins. new_order env ps = Inr ins \<and> nop_open_orders ps = address (hd accs) \<and>
                      txn = [ins])) \<and>
         (accs = [] \<longrightarrow> signers = [owner, new_Account env] \<and>
            (\<exists>resp bal cins ps ins.
               get_minimum_balance_for_rent_exemption env (OPEN_ORDERS_LAYOUT_sizeof env) = Inr resp \<and>
               resp ''result'' = Some bal \<and>
               make_create_account_instruction env (account_public_key owner)
                 (account_public_key (new_Account env)) bal (program_id (state m)) = Inr cins \<and>
               new_order env ps = Inr ins \<and>
               nop_open_orders ps = account_public_key (new_Account env) \<and>
               txn = [cins, ins])))) \<and>
   (\<forall>accs ins.
      find_for_market_and_owner env (public_key (state m)) (account_public_key owner)
        (program_id (state m)) = Inr accs \<and> accs \<noteq> [] \<and>
      payer \<noteq> account_public_key owner \<and> \<not> wrapped_sol_unsupported m sd \<and>
      make_place_order_instruction env m payer owner ot sd lp mq cid (address (hd accs)) = Inr ins \<longrightarrow>
      filter is_submission (snd (place_order env m payer owner ot sd lp mq cid)) =
        [NetSendTransaction [ins] [owner] (skip_preflight m)]) \<and>
   (\<forall>resp bal cins ins.
      find_for_market_and_owner env (public_key (state m)) (account_public_key owner)
        (program_id (state m)) = Inr [] \<and>
      get_minimum_balance_for_rent_exemption env (OPEN_ORDERS_LAYOUT_sizeof env) = Inr resp \<and>
      resp ''result'' = Some bal \<and>
      make_create_account_instruction env (account_public_key owner)
        (account_public_key (new_Account env)) bal (program_id (state m)) = Inr cins \<and>
      payer \<noteq> account_public_key owner \<and> \<not> wrapped_sol_unsupported m sd \<and>
      make_place_order_instruction env m payer owner ot sd lp mq cid
        (account_public_key (new_Account env)) = Inr ins \<longrightarrow>
      filter is_submission (snd (place_order env m payer owner ot sd lp mq cid)) =
        [NetSendTransaction [cins, ins] [owner, new_Account env] (skip_preflight m)])"
proof (intro conjI allI impI)
  fix txn signers sp
  assume "NetSendTransaction txn signers sp \<in> set (snd (place_order env m payer owner ot sd lp mq cid))"
  from place_order_submission_cases [OF this]
  show "\<exists>accs. find_for_market_and_owner env (public_key (state m)) (account_public_key owner)
                (program_id (state m)) = Inr accs \<and>
         (accs \<noteq> [] \<longrightarrow> signers = [owner] \<and>
            (\<exists>ps ins. new_order env ps = Inr ins \<and> nop_open_orders ps = address (hd accs) \<and>
                      txn = [ins])) \<and>
         (accs = [] \<longrightarrow> signers = [owner, new_Account env] \<and>
            (\<exists>resp bal cins ps ins.
               get_minimum_balance_for_rent_exemption env (OPEN_ORDERS_LAYOUT_sizeof env) = Inr resp \<and>
               resp ''result'' = Some bal \<and>
               make_create_account_instruction env (account_public_key owner)
                 (account_public_key (new_Account env)) bal (program_id (state m)) = Inr cins \<and>
               new_order env ps = Inr ins \<and>
               nop_open_orders ps = account_public_key (new_Account env) \<and>
               txn = [cins, ins]))"
    by (metis make_place_order_instruction_Inr)
next
  fix accs ins
  assume h: "find_for_market_and_owner env (public_key (state m)) (account_public_key owner)
        (program_id (state m)) = Inr accs \<and> accs \<noteq> [] \<and>
      payer \<noteq> account_public_key owner \<and> \<not> wrapped_sol_unsupported m sd \<and>
      make_place_order_instruction env m payer owner ot sd lp mq cid (address (hd accs)) = Inr ins"
  then show "filter is_submission (snd (place_order env m payer owner ot sd lp mq cid)) =
        [NetSendTransaction [ins] [owner] (skip_preflight m)]"
    by (simp add: place_order_reaches_checks Let_def send_transaction_submissions)
next
  fix resp bal cins ins
  assume h: "find_for_market_and_owner env (public_key (state m)) (account_public_key owner)
        (program_id (state m)) = Inr [] \<and>
      get_minimum_balance_for_rent_exemption env (OPEN_ORDERS_LAYOUT_sizeof env) = Inr resp \<and>
      resp ''result'' = Some bal \<and>
      make_create_account_instruction env (account_public_key owner)
        (account_public_key (new_Account env)) bal (program_id (state m)) = Inr cins \<and>
      payer \<noteq> account_public_key owner \<and> \<not> wrapped_sol_unsupported m sd \<and>
      make_place_order_instruction env m payer owner ot sd lp mq cid
        (account_public_key (new_Account env)) = Inr ins"
  then have c: "fst (create_open_orders_account env m owner) = Inr ([cins], [owner, new_Account env])"
    by (simp add: create_open_orders_account_Inr)
  with h show "filter is_submission (snd (place_order env m payer owner ot sd lp mq cid)) =
        [NetSendTransaction [cins, ins] [owner, new_Account env] (skip_preflight m)]"
    by (simp add: place_order_reaches_checks [where accs = "[]"] Let_def send_transaction_submissions)
qed

lemma example_find:
  "find_for_market_and_owner example_env (public_key (state example_market))
     (account_public_key example_owner) (program_id (state example_market)) =
   Inr [\<lparr>address = PublicKey ''open_orders''\<rparr>, \<lparr>address = PublicKey ''open_orders_2''\<rparr>]"
  by (simp add: example_env_def)

lemma no_account_find:
  "find_for_market_and_owner no_account_env (public_key (state example_market))
     (account_public_key example_owner) (program_id (state example_market)) = Inr []"
  by (simp add: no_account_env_def)

lemma no_account_create:
  "create_open_orders_account no_account_env example_market example_owner =
     (Inr ([example_instruction ''create'' (PublicKey ''fresh'') (PublicKey ''dex'')],
           [example_owner, Account (PublicKey ''fresh'')]),
      [NetGetMinimumBalanceForRentExemption 3228])"
  by (simp add: create_open_orders_account_def no_account_env_def example_env_def
      example_market_def example_state_def dict_subscript_def)

lemma example_not_wrapped: "\<not> wrapped_sol_unsupported example_market sd"
  by (simp add: wrapped_sol_unsupported_iff example_market_def example_state_def WRAPPED_SOL_MINT_def)

lemma example_payer_not_owner: "example_payer \<noteq> account_public_key example_owner"
  by (simp add: example_payer_def example_owner_def)

theorem place_order_invalid_payer_witness:
  "PublicKey ''owner'' = account_public_key example_owner \<and>
   find_for_market_and_owner example_env (public_key (state example_market))
     (account_public_key example_owner) (program_id (state example_market)) =
     Inr [\<lparr>address = PublicKey ''open_orders''\<rparr>, \<lparr>address = PublicKey ''open_orders_2''\<rparr>] \<and>
   fst (place_order example_env example_market (PublicKey ''owner'') example_owner Limit Buy 50 500 0) =
     Inl (ValueError ''Invalid payer account'') \<and>
   filter is_submission
     (snd (place_order example_env example_market (PublicKey ''owner'') example_owner Limit Buy 50 500 0)) = [] \<and>
   find_for_market_and_owner no_account_env (public_key (state example_market))
     (account_public_key example_owner) (program_id (state example_market)) = Inr [] \<and>
   (\<exists>txs. fst (create_open_orders_account no_account_env example_market example_owner) = Inr txs) \<and>
   fst (place_order no_account_env example_market (PublicKey ''owner'') example_owner Limit Buy 50 500 0) =
     Inl (ValueError ''Invalid payer account'')"
proof -
  have a: "PublicKey ''owner'' = account_public_key example_owner"
    by (simp add: example_owner_def)
  have c: "\<exists>txs. fst (create_open_orders_account no_account_env example_market example_owner) = Inr txs"
    by (simp add: no_account_create)
  note t1 = place_order_invalid_payer [OF a, where env = example_env and m = example_market and ot = Limit and sd = Buy
      and lp = 50 and mq = 500 and cid = 0]
  note t2 = place_order_invalid_payer [OF a, where env = no_account_env and m = example_market and ot = Limit and sd = Buy
      and lp = 50 and mq = 500 and cid = 0]
  have h1: "find_for_market_and_owner example_env (public_key (state example_market))
       (account_public_key example_owner) (program_id (state example_market)) =
       Inr [\<lparr>address = PublicKey ''open_orders''\<rparr>, \<lparr>address = PublicKey ''open_orders_2''\<rparr>] \<and>
     ([\<lparr>address = PublicKey ''open_orders''\<rparr>, \<lparr>address = PublicKey ''open_orders_2''\<rparr>] = [] \<longrightarrow>
        (\<exists>txs. fst (create_open_orders_account example_env example_market example_owner) = Inr txs))"
    by (simp add: example_find)
  have h2: "find_for_market_and_owner no_account_env (public_key (state example_market))
       (account_public_key example_owner) (program_id (state example_market)) = Inr [] \<and>
     ([] = ([] :: open_orders_account list) \<longrightarrow>
        (\<exists>txs. fst (create_open_orders_account no_account_env example_market example_owner) = Inr txs))"
    using c by (simp add: no_account_find)
  have 1: "fst (place_order example_env example_market (PublicKey ''owner'') example_owner Limit Buy 50 500 0) =
     Inl (ValueError ''Invalid payer account'')"
    by (rule t1 [THEN conjunct2, THEN conjunct2, rule_format, OF h1])
  have 2: "filter is_submission
     (snd (place_order example_env example_market (PublicKey ''owner'') example_owner Limit Buy 50 500 0)) = []"
    by (rule t1 [THEN conjunct2, THEN conjunct1])
  have 3: "fst (place_order no_account_env example_market (PublicKey ''owner'') example_owner Limit Buy 50 500 0) =
     Inl (ValueError ''Invalid payer account'')"
    by (rule t2 [THEN conjunct2, THEN conjunct2, rule_format, OF h2])
  from a example_find 1 2 no_account_find c 3 show ?thesis by blast
qed

theorem place_order_lot_error_after_lookup_witness:
  "base_size_number_to_lots (state example_market) (- 1) < 0 \<and>
   find_for_market_and_owner example_env (public_key (state example_market))
     (account_public_key example_owner) (program_id (state example_market)) =
     Inr [\<lparr>address = PublicKey ''open_orders''\<rparr>, \<lparr>address = PublicKey ''open_orders_2''\<rparr>] \<and>
   example_payer \<noteq> account_public_key example_owner \<and>
   \<not> wrapped_sol_unsupported example_market Buy \<and>
   (\<exists>msg. fst (place_order example_env example_market example_payer example_owner Limit Buy 50 (- 1) 0) =
      Inl (Exception msg)) \<and>
   snd (place_order example_env example_market example_payer example_owner Limit Buy 50 (- 1) 0) =
     [NetFindOpenOrders (public_key (state example_market)) (account_public_key example_owner)
        (program_id (state example_market))] \<and>
   filter is_submission
     (snd (place_order example_env example_market example_payer example_owner Limit Buy 50 (- 1) 0)) = [] \<and>
   price_number_to_lots (state example_market) (- 5) < 0 \<and>
   find_for_market_and_owner no_account_env (public_key (state example_market))
     (account_public_key example_owner) (program_id (state example_market)) = Inr [] \<and>
   (\<exists>txs. fst (create_open_orders_account no_account_env example_market example_owner) = Inr txs) \<and>
   snd (place_order no_account_env example_market example_payer example_owner Limit Buy (- 5) 500 0) =
     [NetFindOpenOrders (public_key (state example_market)) (account_public_key example_owner)
        (program_id (state example_market)),
      NetGetMinimumBalanceForRentExemption (OPEN_ORDERS_LAYOUT_sizeof no_account_env)]"
proof -
  have a: "base_size_number_to_lots (state example_market) (- 1) < 0"
    by (simp add: example_market_def example_state_def)
  have b: "price_number_to_lots (state example_market) (- 5) < 0"
    by (simp add: example_market_def example_state_def)
  have c: "\<exists>txs. fst (create_open_orders_account no_account_env example_market example_owner) = Inr txs"
    by (simp add: no_account_create)
  note t1 = place_order_lot_error_after_lookup [OF disjI1, OF a, where lp = 50 and env = example_env and payer = example_payer
      and owner = example_owner and ot = Limit and sd = Buy and cid = 0]
  note t2 = place_order_lot_error_after_lookup [OF disjI2, OF b, where mq = 500 and env = no_account_env and payer = example_payer
      and owner = example_owner and ot = Limit and sd = Buy and cid = 0]
  have h1: "find_for_market_and_owner example_env (public_key (state example_market))
       (account_public_key example_owner) (program_id (state example_market)) =
       Inr [\<lparr>address = PublicKey ''open_orders''\<rparr>, \<lparr>address = PublicKey ''open_orders_2''\<rparr>] \<and>
     ([\<lparr>address = PublicKey ''open_orders''\<rparr>, \<lparr>address = PublicKey ''open_orders_2''\<rparr>] = [] \<longrightarrow>
        (\<exists>txs. fst (create_open_orders_account example_env example_market example_owner) = Inr txs)) \<and>
     example_payer \<noteq> account_public_key example_owner \<and> \<not> wrapped_sol_unsupported example_market Buy"
    by (simp add: example_find example_payer_not_owner example_not_wrapped)
  have h2: "find_for_market_and_owner no_account_env (public_key (state example_market))
       (account_public_key example_owner) (program_id (state example_market)) = Inr [] \<and>
     ([] = ([] :: open_orders_account list) \<longrightarrow>
        (\<exists>txs. fst (create_open_orders_account no_account_env example_market example_owner) = Inr txs)) \<and>
     example_payer \<noteq> account_public_key example_owner \<and> \<not> wrapped_sol_unsupported example_market Buy"
    using c by (simp add: no_account_find example_payer_not_owner example_not_wrapped)
  note r1 = t1 [THEN conjunct2, THEN conjunct2, rule_format, OF h1]
  note r2 = t2 [THEN conjunct2, THEN conjunct2, rule_format, OF h2]
  have 1: "\<exists>msg. fst (place_order example_env example_market example_payer example_owner Limit Buy 50 (- 1) 0) =
      Inl (Exception msg)"
    by (rule r1 [THEN conjunct1])
  have 2: "snd (place_order example_env example_market example_payer example_owner Limit Buy 50 (- 1) 0) =
     [NetFindOpenOrders (public_key (state example_market)) (account_public_key example_owner)
        (program_id (state example_market))]"
    using r1 [THEN conjunct2] by simp
  have 3: "filter is_submission
     (snd (place_order example_env example_market example_payer example_owner Limit Buy 50 (- 1) 0)) = []"
    by (rule t1 [THEN conjunct2, THEN conjunct1])
  have 4: "snd (place_order no_account_env example_market example_payer example_owner Limit Buy (- 5) 500 0) =
     [NetFindOpenOrders (public_key (state example_market)) (account_public_key example_owner)
        (program_id (state example_market)),
      NetGetMinimumBalanceForRentExemption (OPEN_ORDERS_LAYOUT_sizeof no_account_env)]"
    using r2 [THEN conjunct2] by simp
  from a b c 1 2 3 4 example_find no_account_find example_payer_not_owner example_not_wrapped [of Buy]
  show ?thesis by blast
qed

lemma example_new_order:
  "make_place_order_instruction example_env example_market example_payer example_owner Limit Buy 50 500 0
     (address (hd [\<lparr>address = PublicKey ''open_orders''\<rparr>, \<lparr>address = PublicKey ''open_orders_2''\<rparr>])) =
     Inr (example_instruction ''new_order'' (PublicKey ''open_orders'') (PublicKey ''dex''))"
  by (simp add: make_place_order_instruction_def example_env_def example_market_def example_state_def)

lemma no_account_new_order:
  "make_place_order_instruction no_account_env example_market example_payer example_owner Limit Buy 50 500 0
     (account_public_key (new_Account no_account_env)) =
     Inr (example_instruction ''new_order'' (PublicKey ''fresh'') (PublicKey ''dex''))"
  by (simp add: make_place_order_instruction_def no_account_env_def example_env_def
      example_market_def example_state_def)

lemma no_account_rent:
  "get_minimum_balance_for_rent_exemption no_account_env (OPEN_ORDERS_LAYOUT_sizeof no_account_env) =
     Inr [''result'' \<mapsto> RInt 23357760]"
  by (simp add: no_account_env_def example_env_def)

lemma no_account_create_instruction:
  "make_create_account_instruction no_account_env (account_public_key example_owner)
     (account_public_key (new_Account no_account_env)) (RInt 23357760)
     (program_id (state example_market)) =
     Inr (example_instruction ''create'' (PublicKey ''fresh'') (PublicKey ''dex''))"
  by (simp add: no_account_env_def example_env_def example_market_def example_state_def)

theorem place_order_open_orders_resolution_witness:
  "NetSendTransaction [example_instruction ''new_order'' (PublicKey ''open_orders'') (PublicKey ''dex'')]
     [example_owner] False
     \<in> set (snd (place_order example_env example_market example_payer example_owner Limit Buy 50 500 0)) \<and>
   (\<exists>accs. find_for_market_and_owner example_env (public_key (state example_market))
            (account_public_key example_owner) (program_id (state example_market)) = Inr accs \<and>
          accs \<noteq> [] \<and> address (hd accs) = PublicKey ''open_orders'') \<and>
   example_payer \<noteq> account_public_key example_owner \<and>
   \<not> wrapped_sol_unsupported example_market Buy \<and>
   filter is_submission
     (snd (place_order example_env example_market example_payer example_owner Limit Buy 50 500 0)) =
     [NetSendTransaction [example_instruction ''new_order'' (PublicKey ''open_orders'') (PublicKey ''dex'')]
        [example_owner] (skip_preflight example_market)] \<and>
   NetSendTransaction
     [example_instruction ''create'' (PublicKey ''fresh'') (PublicKey ''dex''),
      example_instruction ''new_order'' (PublicKey ''fresh'') (PublicKey ''dex'')]
     [example_owner, Account (PublicKey ''fresh'')] False
     \<in> set (snd (place_order no_account_env example_market example_payer example_owner Limit Buy 50 500 0)) \<and>
   find_for_market_and_owner no_account_env (public_key (state example_market))
     (account_public_key example_owner) (program_id (state example_market)) = Inr [] \<and>
   filter is_submission
     (snd (place_order no_account_env example_market example_payer example_owner Limit Buy 50 500 0)) =
     [NetSendTransaction
        [example_instruction ''create'' (PublicKey ''fresh'') (PublicKey ''dex''),
         example_instruction ''new_order'' (PublicKey ''fresh'') (PublicKey ''dex'')]
        [example_owner, new_Account no_account_env] (skip_preflight example_market)]"
proof -
  note t1 = place_order_open_orders_resolution [where env = example_env and m = example_market and payer = example_payer
      and owner = example_owner and ot = Limit and sd = Buy and lp = 50 and mq = 500 and cid = 0]
  note t2 = place_order_open_orders_resolution [where env = no_account_env and m = example_market and payer = example_payer
      and owner = example_owner and ot = Limit and sd = Buy and lp = 50 and mq = 500 and cid = 0]
  have m1: "NetSendTransaction [example_instruction ''new_order'' (PublicKey ''open_orders'') (PublicKey ''dex'')]
     [example_owner] False
     \<in> set (snd (place_order example_env example_market example_payer example_owner Limit Buy 50 500 0))"
    by (simp add: place_order_example)
  have m2: "NetSendTransaction
     [example_instruction ''create'' (PublicKey ''fresh'') (PublicKey ''dex''),
      example_instruction ''new_order'' (PublicKey ''fresh'') (PublicKey ''dex'')]
     [example_owner, Account (PublicKey ''fresh'')] False
     \<in> set (snd (place_order no_account_env example_market example_payer example_owner Limit Buy 50 500 0))"
    by (simp add: place_order_no_account)
  from t1 [THEN conjunct1, rule_format, OF m1]
  have 1: "\<exists>accs. find_for_market_and_owner example_env (public_key (state example_market))
            (account_public_key example_owner) (program_id (state example_market)) = Inr accs \<and>
          accs \<noteq> [] \<and> address (hd accs) = PublicKey ''open_orders''"
    by (simp add: example_find)
  have h1: "find_for_market_and_owner example_env (public_key (state example_market))
        (account_public_key example_owner) (program_id (state example_market)) =
        Inr [\<lparr>address = PublicKey ''open_orders''\<rparr>, \<lparr>address = PublicKey ''open_orders_2''\<rparr>] \<and>
      [\<lparr>address = PublicKey ''open_orders''\<rparr>, \<lparr>address = PublicKey ''open_orders_2''\<rparr>] \<noteq> [] \<and>
      example_payer \<noteq> account_public_key example_owner \<and> \<not> wrapped_sol_unsupported example_market Buy \<and>
      make_place_order_instruction example_env example_market example_payer example_owner Limit Buy 50 500 0
        (address (hd [\<lparr>address = PublicKey ''open_orders''\<rparr>, \<lparr>address = PublicKey ''open_orders_2''\<rparr>])) =
        Inr (example_instruction ''new_order'' (PublicKey ''open_orders'') (PublicKey ''dex''))"
    using example_find example_payer_not_owner example_not_wrapped [of Buy] example_new_order by simp
  note 2 = t1 [THEN conjunct2, THEN conjunct1, rule_format, OF h1]
  have h2: "find_for_market_and_owner no_account_env (public_key (state example_market))
        (account_public_key example_owner) (program_id (state example_market)) = Inr [] \<and>
      get_minimum_balance_for_rent_exemption no_account_env (OPEN_ORDERS_LAYOUT_sizeof no_account_env) =
        Inr [''result'' \<mapsto> RInt 23357760] \<and>
      [''result'' \<mapsto> RInt 23357760] ''result'' = Some (RInt 23357760) \<and>
      make_create_account_instruction no_account_env (account_public_key example_owner)
        (account_public_key (new_Account no_account_env)) (RInt 23357760)
        (program_id (state example_market)) =
        Inr (example_instruction ''create'' (PublicKey ''fresh'') (PublicKey ''dex'')) \<and>
      example_payer \<noteq> account_public_key example_owner \<and> \<not> wrapped_sol_unsupported example_market Buy \<and>
      make_place_order_instruction no_account_env example_market example_payer example_owner Limit Buy 50 500 0
        (account_public_key (new_Account no_account_env)) =
        Inr (example_instruction ''new_order'' (PublicKey ''fresh'') (PublicKey ''dex''))"
    using no_account_find no_account_rent no_account_create_instruction example_payer_not_owner
      example_not_wrapped [of Buy] no_account_new_order by simp
  note 3 = t2 [THEN conjunct2, THEN conjunct2, rule_format, OF h2]
  from m1 1 example_payer_not_owner example_not_wrapped [of Buy] 2 m2 no_account_find 3
  show ?thesis by blast
qed

section \<open>Operations that are not implemented, and the wrapped native mint\<close>

lemma wrapped_quote_mint: "quote_mint (state wrapped_quote_market) = WRAPPED_SOL_MINT"
  by (simp add: wrapped_quote_market_def)

lemma wrapped_quote_find:
  "find_for_market_and_owner example_env (public_key (state wrapped_quote_market))
     (account_public_key example_owner) (program_id (state wrapped_quote_market)) =
   Inr [\<lparr>address = PublicKey ''open_orders''\<rparr>, \<lparr>address = PublicKey ''open_orders_2''\<rparr>]"
  by (simp add: example_env_def)

lemma wrapped_quote_no_account_find:
  "find_for_market_and_owner no_account_env (public_key (state wrapped_quote_market))
     (account_public_key example_owner) (program_id (state wrapped_quote_market)) = Inr []"
  by (simp add: no_account_env_def)

lemma wrapped_quote_no_account_create:
  "create_open_orders_account no_account_env wrapped_quote_market example_owner =
     (Inr ([example_instruction ''create'' (PublicKey ''fresh'') (PublicKey ''dex'')],
           [example_owner, Account (PublicKey ''fresh'')]),
      [NetGetMinimumBalanceForRentExemption 3228])"
  by (simp add: create_open_orders_account_def no_account_env_def example_env_def
      wrapped_quote_market_def example_state_def dict_subscript_def)

lemma no_account_sizeof: "OPEN_ORDERS_LAYOUT_sizeof no_account_env = 3228"
  by (simp add: no_account_env_def example_env_def)

text \<open>
  Claim C7 as stated fails on the one place where the module refuses to handle a wrapped
  native token account, lines 166--170 of \<open>place_order\<close>. A buy on a market whose quote
  mint is the wrapped native mint does raise \<open>NotImplementedError\<close>, but only after the
  open-orders lookup has gone to the network, and after the rent-exemption query as well
  when the owner has no account.
\<close>

theorem place_order_wrapped_quote_network_first:
  "quote_mint (state wrapped_quote_market) = WRAPPED_SOL_MINT \<and>
   place_order example_env wrapped_quote_market example_payer example_owner Limit Buy 50 500 0 =
     (Inl (NotImplementedError ''WRAPPED_SOL_MINT is currently unsupported''),
      [NetFindOpenOrders (PublicKey ''market'') (PublicKey ''owner'') (PublicKey ''dex'')]) \<and>
   place_order no_account_env wrapped_quote_market example_payer example_owner Limit Buy 50 500 0 =
     (Inl (NotImplementedError ''WRAPPED_SOL_MINT is currently unsupported''),
      [NetFindOpenOrders (PublicKey ''market'') (PublicKey ''owner'') (PublicKey ''dex''),
       NetGetMinimumBalanceForRentExemption 3228]) \<and>
   is_network_call (NetFindOpenOrders (PublicKey ''market'') (PublicKey ''owner'') (PublicKey ''dex'')) \<and>
   is_network_call (NetGetMinimumBalanceForRentExemption 3228)"
  by (simp add: place_order_def find_open_orders_accounts_for_owner_def create_open_orders_account_def
      wrapped_sol_unsupported_def dict_subscript_def no_account_env_def example_env_def
      wrapped_quote_market_def example_state_def example_payer_def example_owner_def)

text \<open>
  Claim C7, as the code has it. Each of the eight methods whose body is a bare
  \<open>raise NotImplementedError\<close> (the fee-discount lookups, the token-account lookups for
  an owner, the per-owner order aggregation, cancel by client id and \<open>settle_funds\<close>)
  fails with \<open>NotImplementedError\<close> for every market, environment and argument, and
  performs no effect at all: no network call and no log line; no return value is
  produced. The handling of a wrapped native token account is refused inside
  \<open>place_order\<close>: a buy on a market whose quote mint is the wrapped native mint always
  fails and never submits a transaction, and once the open-orders lookup has returned
  (with the create-account step done when no account exists) and the payer differs from
  the owner, it fails with that same \<open>NotImplementedError\<close> kind, after exactly the
  open-orders lookup and, when no account exists, the rent-exemption query.
\<close>

theorem unimplemented_operations:
  "support_srm_fee_discounts env m =
     (Inl (NotImplementedError ''support_srm_fee_discounts not implemented''), []) \<and>
   find_fee_discount_keys env m owner_key cache_duration =
     (Inl (NotImplementedError ''find_fee_discount_keys not implemented''), []) \<and>
   find_best_fee_discount_key env m owner_key cache_duration =
     (Inl (NotImplementedError ''find_best_fee_discount_key not implemented''), []) \<and>
   find_quote_token_accounts_for_owner env m owner_key include_unwrapped_sol =
     (Inl (NotImplementedError ''find_quote_token_accounts_for_owner not implemented''), []) \<and>
   load_orders_for_owner env m =
     (Inl (NotImplementedError ''load_orders_for_owner not implemented''), []) \<and>
   load_base_token_for_owner env m =
     (Inl (NotImplementedError ''load_base_token_for_owner not implemented''), []) \<and>
   cancel_order_by_client_id env m owner_name =
     (Inl (NotImplementedError ''cancel_order_by_client_id not implemented''), []) \<and>
   settle_funds env m owner open_orders base_wallet quote_wallet =
     (Inl (NotImplementedError ''settle_funds not implemented''), []) \<and>
   (quote_mint (state m) = WRAPPED_SOL_MINT \<longrightarrow>
      (\<exists>e. fst (place_order env m payer owner ot Buy lp mq cid) = Inl e) \<and>
      filter is_submission (snd (place_order env m payer owner ot Buy lp mq cid)) = [] \<and>
      (\<forall>accs. find_for_market_and_owner env (public_key (state m)) (account_public_key owner)
                (program_id (state m)) = Inr accs \<and>
              (accs = [] \<longrightarrow> (\<exists>txs. fst (create_open_orders_account env m owner) = Inr txs)) \<and>
              payer \<noteq> account_public_key owner \<longrightarrow>
         place_order env m payer owner ot Buy lp mq cid =
           (Inl (NotImplementedError ''WRAPPED_SOL_MINT is currently unsupported''),
            NetFindOpenOrders (public_key (state m)) (account_public_key owner) (program_id (state m)) #
            (if accs = [] then [NetGetMinimumBalanceForRentExemption (OPEN_ORDERS_LAYOUT_sizeof env)]
             else []))))"
proof -
  have stubs:
    "support_srm_fee_discounts env m =
       (Inl (NotImplementedError ''support_srm_fee_discounts not implemented''), [])"
    "find_fee_discount_keys env m owner_key cache_duration =
       (Inl (NotImplementedError ''find_fee_discount_keys not implemented''), [])"
    "find_best_fee_discount_key env m owner_key cache_duration =
       (Inl (NotImplementedError ''find_best_fee_discount_key not implemented''), [])"
    "find_quote_token_accounts_for_owner env m owner_key include_unwrapped_sol =
       (Inl (NotImplementedError ''find_quote_token_accounts_for_owner not implemented''), [])"
    "load_orders_for_owner env m =
       (Inl (NotImplementedError ''load_orders_for_owner not implemented''), [])"
    "load_base_token_for_owner env m =
       (Inl (NotImplementedError ''load_base_token_for_owner not implemented''), [])"
    "cancel_order_by_client_id env m owner_name =
       (Inl (NotImplementedError ''cancel_order_by_client_id not implemented''), [])"
    "settle_funds env m owner open_orders base_wallet quote_wallet =
       (Inl (NotImplementedError ''settle_funds not implemented''), [])"
    by (simp_all add: support_srm_fee_discounts_def find_fee_discount_keys_def
        find_best_fee_discount_key_def find_quote_token_accounts_for_owner_def
        load_orders_for_owner_def load_base_token_for_owner_def cancel_order_by_client_id_def
        settle_funds_def)
  have wrapped: "(\<exists>e. fst (place_order env m payer owner ot Buy lp mq cid) = Inl e) \<and>
      filter is_submission (snd (place_order env m payer owner ot Buy lp mq cid)) = [] \<and>
      (\<forall>accs. find_for_market_and_owner env (public_key (state m)) (account_public_key owner)
                (program_id (state m)) = Inr accs \<and>
              (accs = [] \<longrightarrow> (\<exists>txs. fst (create_open_orders_account env m owner) = Inr txs)) \<and>
              payer \<noteq> account_public_key owner \<longrightarrow>
         place_order env m payer owner ot Buy lp mq cid =
           (Inl (NotImplementedError ''WRAPPED_SOL_MINT is currently unsupported''),
            NetFindOpenOrders (public_key (state m)) (account_public_key owner) (program_id (state m)) #
            (if accs = [] then [NetGetMinimumBalanceForRentExemption (OPEN_ORDERS_LAYOUT_sizeof env)]
             else [])))"
    if q: "quote_mint (state m) = WRAPPED_SOL_MINT"
  proof -
    have w: "wrapped_sol_unsupported m Buy"
      using q by (simp add: wrapped_sol_unsupported_iff)
    have a: "(\<exists>e. fst (place_order env m payer owner ot Buy lp mq cid) = Inl e) \<and>
      filter is_submission (snd (place_order env m payer owner ot Buy lp mq cid)) = []"
      using w place_order_no_submission_before_send [of payer owner m Buy mq lp env ot cid] by blast
    have b: "place_order env m payer owner ot Buy lp mq cid =
           (Inl (NotImplementedError ''WRAPPED_SOL_MINT is currently unsupported''),
            NetFindOpenOrders (public_key (state m)) (account_public_key owner) (program_id (state m)) #
            (if accs = [] then [NetGetMinimumBalanceForRentExemption (OPEN_ORDERS_LAYOUT_sizeof env)]
             else []))"
      if h: "find_for_market_and_owner env (public_key (state m)) (account_public_key owner)
                (program_id (state m)) = Inr accs \<and>
              (accs = [] \<longrightarrow> (\<exists>txs. fst (create_open_orders_account env m owner) = Inr txs)) \<and>
              payer \<noteq> account_public_key owner" for accs
      using h w by (simp add: place_order_reaches_checks [where accs = accs] Let_def)
    from a b show ?thesis by blast
  qed
  from stubs wrapped show ?thesis by blast
qed

theorem unimplemented_operations_witness:
  "quote_mint (state wrapped_quote_market) = WRAPPED_SOL_MINT \<and>
   find_for_market_and_owner example_env (public_key (state wrapped_quote_market))
     (account_public_key example_owner) (program_id (state wrapped_quote_market)) =
     Inr [\<lparr>address = PublicKey ''open_orders''\<rparr>, \<lparr>address = PublicKey ''open_orders_2''\<rparr>] \<and>
   example_payer \<noteq> account_public_key example_owner \<and>
   place_order example_env wrapped_quote_market example_payer example_owner Limit Buy 50 500 0 =
     (Inl (NotImplementedError ''WRAPPED_SOL_MINT is currently unsupported''),
      [NetFindOpenOrders (public_key (state wrapped_quote_market)) (account_public_key example_owner)
         (program_id (state wrapped_quote_market))]) \<and>
   filter is_submission
     (snd (place_order example_env wrapped_quote_market example_payer example_owner Limit Buy 50 500 0)) = [] \<and>
   find_for_market_and_owner no_account_env (public_key (state wrapped_quote_market))
     (account_public_key example_owner) (program_id (state wrapped_quote_market)) = Inr [] \<and>
   (\<exists>txs. fst (create_open_orders_account no_account_env wrapped_quote_market example_owner) = Inr txs) \<and>
   place_order no_account_env wrapped_quote_market example_payer example_owner Limit Buy 50 500 0 =
     (Inl (NotImplementedError ''WRAPPED_SOL_MINT is currently unsupported''),
      [NetFindOpenOrders (public_key (state wrapped_quote_market)) (account_public_key example_owner)
         (program_id (state wrapped_quote_market)),
       NetGetMinimumBalanceForRentExemption 3228]) \<and>
   settle_funds example_env wrapped_quote_market example_owner \<lparr>address = PublicKey ''open_orders''\<rparr>
     (PublicKey ''base_wallet'') (PublicKey ''quote_wallet'') =
     (Inl (NotImplementedError ''settle_funds not implemented''), [])"
proof -
  note t1 = unimplemented_operations [where env = example_env and m = wrapped_quote_market
      and payer = example_payer and owner = example_owner and ot = Limit and lp = 50 and mq = 500
      and cid = 0 and open_orders = "\<lparr>address = PublicKey ''open_orders''\<rparr>"
      and base_wallet = "PublicKey ''base_wallet''" and quote_wallet = "PublicKey ''quote_wallet''"]
  note t2 = unimplemented_operations [where env = no_account_env and m = wrapped_quote_market
      and payer = example_payer and owner = example_owner and ot = Limit and lp = 50 and mq = 500
      and cid = 0]
  note w1 = t1 [THEN conjunct2, THEN conjunct2, THEN conjunct2, THEN conjunct2, THEN conjunct2,
      THEN conjunct2, THEN conjunct2, THEN conjunct2, THEN mp, OF wrapped_quote_mint]
  note w2 = t2 [THEN conjunct2, THEN conjunct2, THEN conjunct2, THEN conjunct2, THEN conjunct2,
      THEN conjunct2, THEN conjunct2, THEN conjunct2, THEN mp, OF wrapped_quote_mint]
  note s = t1 [THEN conjunct2, THEN conjunct2, THEN conjunct2, THEN conjunct2, THEN conjunct2,
      THEN conjunct2, THEN conjunct2, THEN conjunct1]
  have c: "\<exists>txs. fst (create_open_orders_account no_account_env wrapped_quote_market example_owner) = Inr txs"
    by (simp add: wrapped_quote_no_account_create)
  have h1: "find_for_market_and_owner example_env (public_key (state wrapped_quote_market))
       (account_public_key example_owner) (program_id (state wrapped_quote_market)) =
       Inr [\<lparr>address = PublicKey ''open_orders''\<rparr>, \<lparr>address = PublicKey ''open_orders_2''\<rparr>] \<and>
     ([\<lparr>address = PublicKey ''open_orders''\<rparr>, \<lparr>address = PublicKey ''open_orders_2''\<rparr>] = [] \<longrightarrow>
        (\<exists>txs. fst (create_open_orders_account example_env wrapped_quote_market example_owner) = Inr txs)) \<and>
     example_payer \<noteq> account_public_key example_owner"
    by (simp add: wrapped_quote_find example_payer_not_owner)
  have h2: "find_for_market_and_owner no_account_env (public_key (state wrapped_quote_market))
       (account_public_key example_owner) (program_id (state wrapped_quote_market)) = Inr [] \<and>
     ([] = ([] :: open_orders_account list) \<longrightarrow>
        (\<exists>txs. fst (create_open_orders_account no_account_env wrapped_quote_market example_owner) = Inr txs)) \<and>
     example_payer \<noteq> account_public_key example_owner"
    using c by (simp add: wrapped_quote_no_account_find example_payer_not_owner)
  have 1: "place_order example_env wrapped_quote_market example_payer example_owner Limit Buy 50 500 0 =
     (Inl (NotImplementedError ''WRAPPED_SOL_MINT is currently unsupported''),
      [NetFindOpenOrders (public_key (state wrapped_quote_market)) (account_public_key example_owner)
         (program_id (state wrapped_quote_market))])"
    using w1 [THEN conjunct2, THEN conjunct2, rule_format, OF h1] by simp
  have 2: "filter is_submission
     (snd (place_order example_env wrapped_quote_market example_payer example_owner Limit Buy 50 500 0)) = []"
    by (rule w1 [THEN conjunct2, THEN conjunct1])
  have 3: "place_order no_account_env wrapped_quote_market example_payer example_owner Limit Buy 50 500 0 =
     (Inl (NotImplementedError ''WRAPPED_SOL_MINT is currently unsupported''),
      [NetFindOpenOrders (public_key (state wrapped_quote_market)) (account_public_key example_owner)
         (program_id (state wrapped_quote_market)),
       NetGetMinimumBalanceForRentExemption 3228])"
    using w2 [THEN conjunct2, THEN conjunct2, rule_format, OF h2] by (simp add: no_account_sizeof)
  from wrapped_quote_mint wrapped_quote_find example_payer_not_owner 1 2
    wrapped_quote_no_account_find c 3 s
  show ?thesis by blast
qed

section \<open>Loading fills\<close>

lemma bit_length_le: "n < 2 ^ k \<Longrightarrow> bit_length n \<le> k"
proof (induction k arbitrary: n)
  case 0
  then have "n = 0" by simp
  then show ?case by (subst bit_length.simps) simp
next
  case (Suc k)
  show ?case
  proof (cases "n = 0")
    case True
    then show ?thesis by (subst bit_length.simps) simp
  next
    case False
    from Suc.prems have "n div 2 < 2 ^ k" by simp
    then have "bit_length (n div 2) \<le> k" by (rule Suc.IH)
    with False show ?thesis by (subst bit_length.simps) simp
  qed
qed

lemma bit_length_pos: "0 < n \<Longrightarrow> 1 \<le> bit_length n"
  by (subst bit_length.simps) simp

lemma float_exponent_le:
  "float_exponent x y \<le> int (bit_length (nat x)) - int (bit_length (nat y))"
  by (simp add: float_exponent_def Let_def)

lemma round_half_even_div_le: "round_half_even_div x y \<le> x div y + 1"
  by (simp add: round_half_even_div_def Let_def)

lemma div_mult_le_int:
  fixes x d :: int
  assumes "0 < d"
  shows "x div d * d \<le> x"
proof -
  have "x div d * d + x mod d = x" by simp
  moreover have "0 \<le> x mod d" using assms by simp
  ultimately show ?thesis by linarith
qed

lemma round_up_bound_pos:
  fixes x y :: int
  assumes "0 \<le> x" "x < 2 ^ K" "1 \<le> y" "k \<le> K"
  shows "round_half_even_div x (y * 2 ^ k) * 2 ^ k < 2 ^ Suc K"
proof -
  have d: "0 < y * 2 ^ k" using assms(3) by simp
  have q0: "0 \<le> x div (y * 2 ^ k)" using assms(1) d by (simp add: pos_imp_zdiv_nonneg_iff)
  have "x div (y * 2 ^ k) * 2 ^ k \<le> x div (y * 2 ^ k) * (y * 2 ^ k)"
    using q0 assms(3) by (intro mult_left_mono) simp_all
  also have "\<dots> \<le> x" using d by (rule div_mult_le_int)
  finally have a: "x div (y * 2 ^ k) * 2 ^ k \<le> x" .
  have "round_half_even_div x (y * 2 ^ k) * 2 ^ k \<le> (x div (y * 2 ^ k) + 1) * 2 ^ k"
    by (intro mult_right_mono round_half_even_div_le) simp
  also have "\<dots> = x div (y * 2 ^ k) * 2 ^ k + 2 ^ k" by (simp add: algebra_simps)
  also have "\<dots> \<le> x + 2 ^ k" using a by simp
  also have "\<dots> < 2 ^ K + 2 ^ k" using assms(2) by simp
  also have "\<dots> \<le> 2 ^ K + (2::int) ^ K" using assms(4) by (simp add: power_increasing)
  also have "\<dots> = 2 ^ Suc K" by simp
  finally show ?thesis .
qed

lemma round_up_bound_neg:
  fixes x y :: int
  assumes "0 \<le> x" "x < 2 ^ K" "1 \<le> y"
  shows "round_half_even_div (x * 2 ^ k) y < 2 ^ Suc K * 2 ^ k"
proof -
  have n: "0 \<le> x * 2 ^ k" using assms(1) by simp
  have q0: "0 \<le> (x * 2 ^ k) div y"
    using n assms(3) by (simp add: pos_imp_zdiv_nonneg_iff)
  have "(x * 2 ^ k) div y * 1 \<le> (x * 2 ^ k) div y * y"
    using q0 assms(3) by (intro mult_left_mono) simp_all
  also have "\<dots> \<le> x * 2 ^ k"
    using assms(3) by (intro div_mult_le_int) simp
  finally have "(x * 2 ^ k) div y \<le> x * 2 ^ k" by simp
  then have "round_half_even_div (x * 2 ^ k) y \<le> x * 2 ^ k + 1"
    using round_half_even_div_le [of "x * 2 ^ k" y] by linarith
  also have "\<dots> \<le> x * 2 ^ k + 2 ^ k" by simp
  also have "\<dots> = (x + 1) * 2 ^ k" by (simp add: algebra_simps)
  also have "\<dots> \<le> 2 ^ K * 2 ^ k" using assms(2) by (intro mult_right_mono) simp_all
  also have "\<dots> < 2 ^ Suc K * 2 ^ k" by simp
  finally show ?thesis .
qed

lemma py_truediv_returns:
  assumes "b \<noteq> 0" and "\<bar>a\<bar> < 2 ^ 1000"
  shows "\<exists>r. py_truediv a b = Inr r"
proof (cases "a = 0")
  case True
  with assms(1) show ?thesis by (simp add: py_truediv_def)
next
  case False
  define x where "x = \<bar>a\<bar>"
  define y where "y = \<bar>b\<bar>"
  define u where "u = max (float_exponent x y - 52) (- 1074)"
  define m where "m = (if 0 \<le> u then round_half_even_div x (y * 2 ^ nat u)
                       else round_half_even_div (x * 2 ^ nat (- u)) y)"
  define r :: rat where "r = (if 0 \<le> u then of_int m * 2 ^ nat u else of_int m / 2 ^ nat (- u))"
  have x0: "0 \<le> x" and xK: "x < 2 ^ 1000" and y1: "1 \<le> y"
    using assms False by (simp_all add: x_def y_def)
  have "nat x < 2 ^ 1000" using x0 xK by (simp add: nat_less_iff)
  then have bx: "bit_length (nat x) \<le> 1000" by (rule bit_length_le)
  have "0 < nat y" using y1 by simp
  then have by1: "1 \<le> bit_length (nat y)" by (rule bit_length_pos)
  have e: "float_exponent x y \<le> 999"
    using float_exponent_le [of x y] bx by1 by linarith
  have rb: "r < 2 ^ Suc 1000"
  proof (cases "0 \<le> u")
    case True
    then have uk: "nat u \<le> 1000" using e by (simp add: u_def)
    have "m * 2 ^ nat u < 2 ^ Suc 1000"
      using round_up_bound_pos [OF x0 xK y1 uk] True by (simp only: m_def if_True)
    then have "(of_int (m * 2 ^ nat u) :: rat) < of_int (2 ^ Suc 1000)"
      by (simp only: of_int_less_iff)
    then have "(of_int m :: rat) * 2 ^ nat u < 2 ^ Suc 1000"
      by (simp only: of_int_mult of_int_power of_int_numeral)
    with True show ?thesis by (simp only: r_def if_True)
  next
    case False
    have "m < 2 ^ Suc 1000 * 2 ^ nat (- u)"
      using round_up_bound_neg [OF x0 xK y1] False by (simp only: m_def if_False)
    then have "(of_int m :: rat) < of_int (2 ^ Suc 1000 * 2 ^ nat (- u))"
      by (simp only: of_int_less_iff)
    then have "(of_int m :: rat) < 2 ^ Suc 1000 * 2 ^ nat (- u)"
      by (simp only: of_int_mult of_int_power of_int_numeral)
    moreover have "(0::rat) < 2 ^ nat (- u)" by simp
    ultimately have "(of_int m :: rat) / 2 ^ nat (- u) < 2 ^ Suc 1000"
      by (simp only: pos_divide_less_eq)
    with False show ?thesis by (simp only: r_def if_False)
  qed
  have "(2::rat) ^ Suc 1000 \<le> 2 ^ 1024" by (rule power_increasing) simp_all
  with rb have lt: "\<not> 2 ^ 1024 \<le> r" by linarith
  have "py_truediv a b =
     (if 2 ^ 1024 \<le> r then Inl (OverflowError ''integer division result too large for a float'')
      else Inr (if (a < 0) \<noteq> (b < 0) then - r else r))"
    using assms(1) False
    unfolding py_truediv_def Let_def r_def m_def u_def x_def y_def by (simp only: if_False)
  with lt show ?thesis by (simp only: if_False) blast
qed

lemma map_result_Inr: "map_result f xs = Inr ys \<longleftrightarrow> map f xs = map Inr ys"
proof (induction xs arbitrary: ys)
  case Nil
  show ?case by auto
next
  case (Cons x xs)
  show ?case
  proof (cases "f x")
    case (Inl e)
    then show ?thesis by (cases ys) auto
  next
    case (Inr y)
    then show ?thesis
      using Cons.IH by (cases ys; cases "map_result f xs") auto
  qed
qed

lemma ten_pow_bound: "(10::int) ^ 255 \<le> 2 ^ 850"
proof -
  have "(10::int) ^ 255 = (10 ^ 3) ^ 85" by (simp only: power_mult [symmetric]) simp
  also have "\<dots> \<le> (2 ^ 10) ^ 85" by (rule power_mono) simp_all
  also have "\<dots> = 2 ^ 850" by (simp only: power_mult [symmetric]) simp
  finally show ?thesis .
qed

lemma price_before_fees_bound:
  assumes "\<bar>native_quantity_released ev\<bar> < 2 ^ 64" and "\<bar>native_fee_or_rebate ev\<bar> < 2 ^ 64"
  shows "\<bar>price_before_fees ev\<bar> < 2 ^ 65"
proof -
  have "\<bar>price_before_fees ev\<bar> \<le> \<bar>native_quantity_released ev\<bar> + \<bar>native_fee_or_rebate ev\<bar>"
    by (auto simp: price_before_fees_def)
  also have "\<dots> < 2 ^ 64 + 2 ^ 64" using assms by (rule add_strict_mono)
  also have "\<dots> = (2::int) ^ 65" by simp
  finally show ?thesis .
qed

lemma parse_fill_event_returns:
  assumes bm: "0 < base_spl_token_multiplier (state m)" "base_spl_token_multiplier (state m) \<le> 10 ^ 255"
      and qm: "0 < quote_spl_token_multiplier (state m)"
      and paid: "0 < native_quantity_paid ev" "native_quantity_paid ev < 2 ^ 64"
      and rel: "\<bar>native_quantity_released ev\<bar> < 2 ^ 64"
      and fee: "\<bar>native_fee_or_rebate ev\<bar> < 2 ^ 64"
  shows "\<exists>fo. parse_fill_event m ev = Inr fo"
proof -
  let ?bm = "base_spl_token_multiplier (state m)"
  have bm850: "?bm \<le> 2 ^ 850" using bm(2) ten_pow_bound by linarith
  have "\<bar>price_before_fees ev * ?bm\<bar> = \<bar>price_before_fees ev\<bar> * ?bm"
    using bm(1) by (simp add: abs_mult)
  also have "\<dots> \<le> \<bar>price_before_fees ev\<bar> * 2 ^ 850"
    using bm850 by (intro mult_left_mono) simp_all
  also have "\<dots> < 2 ^ 65 * 2 ^ 850"
    using price_before_fees_bound [OF rel fee] by (intro mult_strict_right_mono) simp_all
  also have "\<dots> = (2::int) ^ 915" by (simp only: power_add [symmetric]) simp
  also have "\<dots> \<le> 2 ^ 1000" by (rule power_increasing) simp_all
  finally have n: "\<bar>price_before_fees ev * ?bm\<bar> < 2 ^ 1000" .
  have d: "quote_spl_token_multiplier (state m) * native_quantity_paid ev \<noteq> 0"
    using qm paid(1) by simp
  obtain price where p: "py_truediv (price_before_fees ev * ?bm)
      (quote_spl_token_multiplier (state m) * native_quantity_paid ev) = Inr price"
    using py_truediv_returns [OF d n] by blast
  have "\<bar>native_quantity_paid ev\<bar> < 2 ^ 64" using paid by simp
  also have "(2::int) ^ 64 \<le> 2 ^ 1000" by (rule power_increasing) simp_all
  finally have n2: "\<bar>native_quantity_paid ev\<bar> < 2 ^ 1000" .
  have d2: "?bm \<noteq> 0" using bm(1) by simp
  obtain sz where s: "py_truediv (native_quantity_paid ev) ?bm = Inr sz"
    using py_truediv_returns [OF d2 n2] by blast
  show ?thesis by (simp add: parse_fill_event_def p s)
qed

lemma map_result_returns:
  "(\<And>x. x \<in> set xs \<Longrightarrow> \<exists>y. f x = Inr y) \<Longrightarrow> \<exists>ys. map_result f xs = Inr ys"
proof (induction xs)
  case Nil
  show ?case by simp
next
  case (Cons x xs)
  from Cons.prems obtain y where y: "f x = Inr y" by auto
  from Cons obtain ys where "map_result f xs = Inr ys" by auto
  with y show ?case by simp
qed

text \<open>
  Claim C4. When the event-queue bytes are read and decoded into \<open>events\<close> with the
  given limit, \<open>load_fills\<close> makes that one read and returns a list \<open>fills\<close> exactly
  when \<open>fills\<close> is the list of the results of \<open>parse_fill_event\<close> on the events whose
  fill flag is set and whose \<open>native_quantity_paid\<close> is greater than 0, taken in the
  order of the decoded queue: nothing else is kept and nothing kept is dropped or moved.
  It does return whenever the two token multipliers are positive powers of ten of at
  most 255 digits and the quantities of the events are 64-bit values, as the decoders
  produce them.
\<close>

theorem load_fills_parsed_fills:
  assumes "load_bytes_data env (event_queue (state m)) = Inr bytes_data"
      and "decode_event_queue env bytes_data limit = Inr events"
  shows "snd (load_fills env m limit) = [NetLoadBytesData (event_queue (state m))] \<and>
     (\<forall>fills. fst (load_fills env m limit) = Inr fills \<longleftrightarrow>
        map (parse_fill_event m)
          (filter (\<lambda>ev. fill (event_flags ev) \<and> 0 < native_quantity_paid ev) events) =
        map Inr fills) \<and>
     (0 < base_spl_token_multiplier (state m) \<and> base_spl_token_multiplier (state m) \<le> 10 ^ 255 \<and>
      0 < quote_spl_token_multiplier (state m) \<and>
      (\<forall>ev \<in> set events. \<bar>native_quantity_released ev\<bar> < 2 ^ 64 \<and>
         \<bar>native_fee_or_rebate ev\<bar> < 2 ^ 64 \<and> native_quantity_paid ev < 2 ^ 64) \<longrightarrow>
      (\<exists>fills. fst (load_fills env m limit) = Inr fills))"
proof -
  have f: "filter is_fill events =
      filter (\<lambda>ev. fill (event_flags ev) \<and> 0 < native_quantity_paid ev) events"
    by (simp add: is_fill_def [abs_def])
  have l: "load_fills env m limit =
      (map_result (parse_fill_event m) (filter is_fill events),
       [NetLoadBytesData (event_queue (state m))])"
    using assms by (simp add: load_fills_def)
  show ?thesis
  proof (intro conjI allI impI)
    show "snd (load_fills env m limit) = [NetLoadBytesData (event_queue (state m))]"
      by (simp add: l)
  next
    fix fills
    show "fst (load_fills env m limit) = Inr fills \<longleftrightarrow>
        map (parse_fill_event m)
          (filter (\<lambda>ev. fill (event_flags ev) \<and> 0 < native_quantity_paid ev) events) =
        map Inr fills"
      by (simp add: l map_result_Inr f)
  next
    assume h: "0 < base_spl_token_multiplier (state m) \<and> base_spl_token_multiplier (state m) \<le> 10 ^ 255 \<and>
      0 < quote_spl_token_multiplier (state m) \<and>
      (\<forall>ev \<in> set events. \<bar>native_quantity_released ev\<bar> < 2 ^ 64 \<and>
         \<bar>native_fee_or_rebate ev\<bar> < 2 ^ 64 \<and> native_quantity_paid ev < 2 ^ 64)"
    have "\<exists>ys. map_result (parse_fill_event m) (filter is_fill events) = Inr ys"
    proof (rule map_result_returns)
      fix ev
      assume "ev \<in> set (filter is_fill events)"
      then have "ev \<in> set events" and "0 < native_quantity_paid ev"
        by (simp_all add: is_fill_def)
      with h show "\<exists>fo. parse_fill_event m ev = Inr fo"
        by (intro parse_fill_event_returns) auto
    qed
    then show "\<exists>fills. fst (load_fills env m limit) = Inr fills"
      by (simp add: l)
  qed
qed

lemma parse_maker_bid_fill:
  "parse_fill_event example_market maker_bid_fill =
     Inr \<lparr>fo_order_id = 513, fo_side = Buy, fo_price = 4548635623644201 / 2251799813685248,
          fo_size = 500, fo_fee_cost = 10\<rparr>"
  by (simp add: parse_fill_event_def example_market_def example_state_def maker_bid_fill_def
      price_before_fees_def fill_side_def py_truediv_1010_500 py_truediv_500_1)

lemma parse_taker_ask_fill:
  "parse_fill_event example_market taker_ask_fill =
     Inr \<lparr>fo_order_id = 3, fo_side = Sell, fo_price = 4548635623644201 / 2251799813685248,
          fo_size = 500, fo_fee_cost = - 10\<rparr>"
  by (simp add: parse_fill_event_def example_market_def example_state_def taker_ask_fill_def
      price_before_fees_def fill_side_def py_truediv_1010_500 py_truediv_500_1)

lemma example_events_filter:
  "filter (\<lambda>ev. fill (event_flags ev) \<and> 0 < native_quantity_paid ev)
     [maker_bid_fill, out_event, taker_ask_fill] = [maker_bid_fill, taker_ask_fill]"
  by (simp add: maker_bid_fill_def out_event_def taker_ask_fill_def)

theorem load_fills_parsed_fills_witness:
  "load_bytes_data example_env (event_queue (state example_market)) = Inr [] \<and>
   decode_event_queue example_env [] 100 = Inr [maker_bid_fill, out_event, taker_ask_fill] \<and>
   0 < base_spl_token_multiplier (state example_market) \<and>
   base_spl_token_multiplier (state example_market) \<le> 10 ^ 255 \<and>
   0 < quote_spl_token_multiplier (state example_market) \<and>
   \<bar>native_quantity_released maker_bid_fill\<bar> < 2 ^ 64 \<and>
   \<bar>native_fee_or_rebate maker_bid_fill\<bar> < 2 ^ 64 \<and> native_quantity_paid maker_bid_fill < 2 ^ 64 \<and>
   \<bar>native_quantity_released out_event\<bar> < 2 ^ 64 \<and>
   \<bar>native_fee_or_rebate out_event\<bar> < 2 ^ 64 \<and> native_quantity_paid out_event < 2 ^ 64 \<and>
   \<bar>native_quantity_released taker_ask_fill\<bar> < 2 ^ 64 \<and>
   \<bar>native_fee_or_rebate taker_ask_fill\<bar> < 2 ^ 64 \<and> native_quantity_paid taker_ask_fill < 2 ^ 64 \<and>
   (\<exists>fills. fst (load_fills example_env example_market 100) = Inr fills) \<and>
   fst (load_fills example_env example_market 100) =
     Inr [\<lparr>fo_order_id = 513, fo_side = Buy, fo_price = 4548635623644201 / 2251799813685248,
           fo_size = 500, fo_fee_cost = 10\<rparr>,
          \<lparr>fo_order_id = 3, fo_side = Sell, fo_price = 4548635623644201 / 2251799813685248,
           fo_size = 500, fo_fee_cost = - 10\<rparr>] \<and>
   snd (load_fills example_env example_market 100) =
     [NetLoadBytesData (event_queue (state example_market))]"
proof -
  have h1: "load_bytes_data example_env (event_queue (state example_market)) = Inr []"
    by (simp add: example_env_def)
  have h2: "decode_event_queue example_env [] 100 = Inr [maker_bid_fill, out_event, taker_ask_fill]"
    by (simp add: example_env_def)
  have b1: "0 < base_spl_token_multiplier (state example_market)"
    and b3: "0 < quote_spl_token_multiplier (state example_market)"
    by (simp_all add: example_market_def example_state_def)
  have "(1::int) \<le> 10 ^ 255" by (rule one_le_power) simp
  then have b2: "base_spl_token_multiplier (state example_market) \<le> 10 ^ 255"
    by (simp only: example_market_def example_state_def market.simps market_state.simps)
  have b4: "\<forall>ev \<in> set [maker_bid_fill, out_event, taker_ask_fill].
      \<bar>native_quantity_released ev\<bar> < 2 ^ 64 \<and> \<bar>native_fee_or_rebate ev\<bar> < 2 ^ 64 \<and>
      native_quantity_paid ev < 2 ^ 64"
    by (simp add: maker_bid_fill_def out_event_def taker_ask_fill_def)
  note t = load_fills_parsed_fills [OF h1 h2]
  have m: "map (parse_fill_event example_market)
          (filter (\<lambda>ev. fill (event_flags ev) \<and> 0 < native_quantity_paid ev)
             [maker_bid_fill, out_event, taker_ask_fill]) =
        map Inr [\<lparr>fo_order_id = 513, fo_side = Buy, fo_price = 4548635623644201 / 2251799813685248,
           fo_size = 500, fo_fee_cost = 10\<rparr>,
          \<lparr>fo_order_id = 3, fo_side = Sell, fo_price = 4548635623644201 / 2251799813685248,
           fo_size = 500, fo_fee_cost = - 10\<rparr>]"
    by (simp only: example_events_filter list.map parse_maker_bid_fill parse_taker_ask_fill)
  note 1 = t [THEN conjunct1]
  note 2 = t [THEN conjunct2, THEN conjunct1, rule_format, THEN iffD2, OF m]
  have 3: "\<exists>fills. fst (load_fills example_env example_market 100) = Inr fills"
    using t [THEN conjunct2, THEN conjunct2] b1 b2 b3 b4 by blast
  have b5: "\<bar>native_quantity_released maker_bid_fill\<bar> < 2 ^ 64 \<and>
   \<bar>native_fee_or_rebate maker_bid_fill\<bar> < 2 ^ 64 \<and> native_quantity_paid maker_bid_fill < 2 ^ 64 \<and>
   \<bar>native_quantity_released out_event\<bar> < 2 ^ 64 \<and>
   \<bar>native_fee_or_rebate out_event\<bar> < 2 ^ 64 \<and> native_quantity_paid out_event < 2 ^ 64 \<and>
   \<bar>native_quantity_released taker_ask_fill\<bar> < 2 ^ 64 \<and>
   \<bar>native_fee_or_rebate taker_ask_fill\<bar> < 2 ^ 64 \<and> native_quantity_paid taker_ask_fill < 2 ^ 64"
    by (simp add: maker_bid_fill_def out_event_def taker_ask_fill_def)
  from h1 h2 b1 b2 b3 b5 1 2 3 show ?thesis by blast
qed

end
